theory Spec2Isabelle
  imports Main "HOL-Library.Sublist" "HOL-Library.Multiset"
begin

section \<open>Values, errors and the external collaborators\<close>

text \<open>
  The notebook \<^verbatim>\<open>create_metadata_dictionary.ipynb\<close> is sequential glue around two
  services (Elasticsearch and a text-generation service) and three library behaviours
  (\<^verbatim>\<open>json.loads\<close>, the iteration order of a \<^verbatim>\<open>set\<close>, the completion order of a
  thread pool). The services are arguments of every function, as in the source; the
  library behaviours are collected in the record \<open>runtime\<close> and stay arbitrary in the
  theorems. Python's default arguments (\<^verbatim>\<open>threshold=20\<close>, \<^verbatim>\<open>size=10\<close>) are passed
  explicitly.
\<close>

datatype json =
    JNull
  | JBool bool
  | JInt int
  | JStr string
  | JArr "json list"
  | JObj "(string \<times> json) list"

text \<open>
  Exceptions of the source as values. \<open>ValueError\<close> is what \<^verbatim>\<open>extract_json\<close> raises,
  and what \<^verbatim>\<open>json.loads\<close> raises on an integer literal too long to convert;
  \<open>JSONDecodeError\<close>, a subclass of \<^verbatim>\<open>ValueError\<close>, is the parse failure of
  \<^verbatim>\<open>json.loads\<close>, and \<open>RecursionError\<close> what it raises on a text nested too deeply.
  \<open>KeyError\<close> is a failed subscript; \<open>TransportError\<close> and \<open>ApiError\<close> are what the
  clients of the two services raise (connection, timeout and authentication failures;
  missing index or field, malformed request).
\<close>

datatype error =
    ValueError string
  | JSONDecodeError string
  | RecursionError string
  | KeyError string
  | TransportError string
  | ApiError string

text \<open>What \<^verbatim>\<open>except ValueError\<close> catches: the class and its subclass.\<close>

fun is_ValueError :: "error \<Rightarrow> bool" where
  "is_ValueError (ValueError msg) = True"
| "is_ValueError (JSONDecodeError msg) = True"
| "is_ValueError e = False"

text \<open>The key of a term bucket is a string or a number, as the field is.\<close>

datatype term_key = KeyStr string | KeyInt int

record bucket =
  bucket_key :: term_key
  doc_count :: nat

datatype aggregation =
    Terms string int
  | RareTerms string int
  | SignificantTerms string int
  | Cardinality string
  | TopHits int

type_synonym query = "(string \<times> aggregation) list"

record search_response =
  frequent_terms_buckets :: "bucket list"
  rare_terms_buckets :: "bucket list"
  significant_terms_buckets :: "bucket list"
  unique_count_value :: int
  sample_docs_hits :: "json list"

text \<open>
  One property entry of a mapping is a dictionary; \<^verbatim>\<open>get_fields\<close> reads its
  \<^verbatim>\<open>'type'\<close> entry only, so the string-valued attributes are what is modelled.
  The \<^verbatim>\<open>'mappings'\<close> dictionary of an index has a \<^verbatim>\<open>'properties'\<close> entry or none.
\<close>

type_synonym details = "string \<rightharpoonup> string"
type_synonym index_mappings = "(string \<times> details) list option"

record es_client =
  es_get_alias :: "error + (string list)"
  es_get_mapping :: "string \<Rightarrow> error + (string \<times> index_mappings) list"
  es_search :: "string \<Rightarrow> query \<Rightarrow> error + search_response"

record watsonx_wrapper =
  generate_text :: "string \<Rightarrow> error + string"

text \<open>
  \<open>json_loads\<close>: \<^verbatim>\<open>json.loads\<close>, which returns the parsed value or raises: a
  \<^verbatim>\<open>JSONDecodeError\<close> with its message, or another exception.
  \<open>set_order\<close>: the position a value takes when a \<^verbatim>\<open>set\<close> is iterated.
  \<open>completion_time\<close>: the rank by which \<^verbatim>\<open>as_completed\<close> yields the future of an index
  and a field in a pool of the given number of workers: the time the unit of work
  completes, and for futures that are finished before \<^verbatim>\<open>as_completed\<close> is called the
  place they take in the set that holds them.
\<close>

record runtime =
  json_loads :: "string \<Rightarrow> error + json"
  set_order :: "term_key \<Rightarrow> nat"
  completion_time :: "nat \<Rightarrow> string \<Rightarrow> string \<Rightarrow> nat"

section \<open>Index and field operations\<close>

record field_detail =
  field_name :: string
  data_type :: string

definition dict_get :: "('k \<rightharpoonup> 'v) \<Rightarrow> 'k \<Rightarrow> 'v \<Rightarrow> 'v" where
  "dict_get d k dflt = (case d k of None \<Rightarrow> dflt | Some v \<Rightarrow> v)"

definition get_indices :: "es_client \<Rightarrow> error + string list" where
  "get_indices es = es_get_alias es"

definition get_fields :: "es_client \<Rightarrow> string \<Rightarrow> error + field_detail list" where
  "get_fields es index =
     (case es_get_mapping es index of
        Inl e \<Rightarrow> Inl e
      | Inr mapping \<Rightarrow>
          (case map_of mapping index of
             None \<Rightarrow> Inl (KeyError index)
           | Some mappings \<Rightarrow>
               (let properties = (case mappings of None \<Rightarrow> [] | Some ps \<Rightarrow> ps)
                in Inr (map (\<lambda>(field, details).
                              \<lparr>field_name = field,
                               data_type = dict_get details ''type'' ''unknown''\<rparr>)
                            properties))))"

section \<open>Diverse terms by aggregations\<close>

record diverse_terms =
  frequent_terms :: "term_key list"
  rare_terms :: "term_key list"
  significant_terms :: "term_key list"
  unique_count :: int
  sample_docs :: "json list"

definition agg_field :: "string \<Rightarrow> string \<Rightarrow> string" where
  "agg_field field dtype = (if dtype = ''text'' then field @ ''.keyword'' else field)"

definition diverse_terms_query :: "string \<Rightarrow> string \<Rightarrow> int \<Rightarrow> query" where
  "diverse_terms_query field dtype sz =
     [(''frequent_terms'', Terms (agg_field field dtype) sz),
      (''rare_terms'', RareTerms (agg_field field dtype) 5),
      (''significant_terms'', SignificantTerms (agg_field field dtype) sz),
      (''unique_count'', Cardinality (agg_field field dtype)),
      (''sample_docs'', TopHits 3)]"

definition get_diverse_terms ::
  "es_client \<Rightarrow> string \<Rightarrow> string \<Rightarrow> string \<Rightarrow> int \<Rightarrow> error + diverse_terms" where
  "get_diverse_terms es index field dtype sz =
     (case es_search es index (diverse_terms_query field dtype sz) of
        Inl e \<Rightarrow> Inl e
      | Inr response \<Rightarrow>
          Inr \<lparr>frequent_terms = map bucket_key (frequent_terms_buckets response),
               rare_terms = map bucket_key (rare_terms_buckets response),
               significant_terms = map bucket_key (significant_terms_buckets response),
               unique_count = unique_count_value response,
               sample_docs = sample_docs_hits response\<rparr>)"

text \<open>The field an aggregation is computed on; \<^verbatim>\<open>top_hits\<close> takes none.\<close>

fun aggregation_field :: "aggregation \<Rightarrow> string option" where
  "aggregation_field (Terms f n) = Some f"
| "aggregation_field (RareTerms f n) = Some f"
| "aggregation_field (SignificantTerms f n) = Some f"
| "aggregation_field (Cardinality f) = Some f"
| "aggregation_field (TopHits n) = None"

section \<open>Prompt template and JSON extraction\<close>

fun str_nat :: "nat \<Rightarrow> string" where
  "str_nat n =
     (if n < 10 then [char_of (48 + n)]
      else str_nat (n div 10) @ [char_of (48 + n mod 10)])"

definition str_int :: "int \<Rightarrow> string" where
  "str_int i = (if i < 0 then CHR ''-'' # str_nat (nat (- i)) else str_nat (nat i))"

fun str_key :: "term_key \<Rightarrow> string" where
  "str_key (KeyStr s) = s"
| "str_key (KeyInt i) = str_int i"

fun join :: "string \<Rightarrow> string list \<Rightarrow> string" where
  "join sep [] = []"
| "join sep [x] = x"
| "join sep (x # y # ys) = x @ sep @ join sep (y # ys)"

definition dq :: string where
  "dq = [CHR 0x22]"

definition SYSTEM_PROMPT :: string where
  "SYSTEM_PROMPT =
     ''You are a highly knowledgeable metadata dictionary agent. '' @
     ''Your mission is to help Elasticsearch admins understand their data by providing clear, concise natural language descriptions for each field.''"

definition USER_PROMPT_TEMPLATE :: "string \<Rightarrow> string \<Rightarrow> string \<Rightarrow> string \<Rightarrow> string" where
  "USER_PROMPT_TEMPLATE index field dtype samples =
     ''Analyze the field based on the input below:\<newline>'' @
     ''- Index Name: '' @ index @ ''\<newline>'' @
     ''- Field Name: '' @ field @ ''\<newline>'' @
     ''- Data Type: '' @ dtype @ ''\<newline>'' @
     ''- Sample Values: '' @ samples @ ''\<newline>\<newline>'' @
     ''Generate a description that explains the field'' @ [CHR 0x27] @ ''s purpose. '' @
     ''Return the output strictly in the following JSON format (no additional text):\<newline>\<newline>'' @
     ''json\<newline>'' @
     ''{\<newline>'' @
     ''  '' @ dq @ ''field_name'' @ dq @ '': '' @ dq @ field @ dq @ '',\<newline>'' @
     ''  '' @ dq @ ''index_name'' @ dq @ '': '' @ dq @ index @ dq @ '',\<newline>'' @
     ''  '' @ dq @ ''data_type'' @ dq @ '': '' @ dq @ dtype @ dq @ '',\<newline>'' @
     ''  '' @ dq @ ''natural_language_description'' @ dq @ '': '' @ dq @ ''<your description>'' @ dq @ '',\<newline>'' @
     ''  '' @ dq @ ''sample_value'' @ dq @ '': '' @ dq @ samples @ dq @ ''\<newline>'' @
     ''}\<newline>''"

definition LLM_PREFIX :: string where
  "LLM_PREFIX = ''**Generating Metadata Dictionary in desired format:**''"

definition LLAMA3_BASE_PROMPT :: "string \<Rightarrow> string \<Rightarrow> string \<Rightarrow> string" where
  "LLAMA3_BASE_PROMPT system_prompt user_prompt llm_prefix =
     ''<|begin_of_text|><|start_header_id|>system<|end_header_id|>\<newline>'' @
     system_prompt @ ''<|eot_id|><|start_header_id|>user<|end_header_id|>\<newline>'' @
     user_prompt @ ''<|eot_id|><|start_header_id|>assistant<|end_header_id|>\<newline>'' @
     llm_prefix"

definition generate_prompt :: "string \<Rightarrow> string \<Rightarrow> string \<Rightarrow> term_key list \<Rightarrow> string" where
  "generate_prompt index field dtype samples =
     LLAMA3_BASE_PROMPT SYSTEM_PROMPT
       (USER_PROMPT_TEMPLATE index field dtype (join '', '' (map str_key samples)))
       LLM_PREFIX"

subsection \<open>The regular expression of \<^verbatim>\<open>extract_json\<close>\<close>

text \<open>
  A backtracking matcher for the constructs the pattern uses. \<open>re_match r s\<close> lists, in
  the order the engine tries them, the rests of \<open>s\<close> after each way \<open>r\<close> matches a prefix
  of \<open>s\<close>: the first alternative before the second, and for the greedy star one more
  repetition before stopping. \<open>AnyChar\<close> is the dot: any character but a newline.
\<close>

datatype regex =
    Lit char
  | AnyChar
  | Alt regex regex
  | Seq regex regex
  | Star regex
  | Group regex

function (sequential) re_match :: "regex \<Rightarrow> string \<Rightarrow> string list" where
  "re_match (Lit c) s = (case s of [] \<Rightarrow> [] | d # t \<Rightarrow> if d = c then [t] else [])"
| "re_match AnyChar s = (case s of [] \<Rightarrow> [] | d # t \<Rightarrow> if d \<noteq> CHR 0x0A then [t] else [])"
| "re_match (Alt a b) s = re_match a s @ re_match b s"
| "re_match (Seq a b) s = concat (map (re_match b) (re_match a s))"
| "re_match (Star r) s =
     concat (map (\<lambda>t. if length t < length s then re_match (Star r) t else [])
                 (re_match r s)) @ [s]"
| "re_match (Group r) s = re_match r s"
  by pat_completeness auto
termination
  by (relation "measures [\<lambda>(r, s). size r, \<lambda>(r, s). length s]") auto

text \<open>
  \<^verbatim>\<open>re.search\<close>: the first match at the leftmost position that has one. The result is
  the text of group 1, which in the pattern below encloses the whole expression.
\<close>

fun re_search :: "regex \<Rightarrow> string \<Rightarrow> string option" where
  "re_search r [] = (case re_match r [] of [] \<Rightarrow> None | t # ts \<Rightarrow> Some [])"
| "re_search r (c # s) =
     (case re_match r (c # s) of
        [] \<Rightarrow> re_search r s
      | t # ts \<Rightarrow> Some (take (length (c # s) - length t) (c # s)))"

definition pattern :: regex where
  "pattern = Group (Seq (Lit CHR ''{'') (Seq (Star (Alt AnyChar (Lit CHR 0x0A))) (Lit CHR ''}'')))"

definition extract_json :: "runtime \<Rightarrow> string \<Rightarrow> error + json" where
  "extract_json rt text =
     (case re_search pattern text of
        Some group1 \<Rightarrow>
          (case json_loads rt group1 of
             Inr obj \<Rightarrow> Inr obj
           | Inl (JSONDecodeError e) \<Rightarrow> Inl (ValueError (''Error parsing JSON: '' @ e))
           | Inl other \<Rightarrow> Inl other)
      | None \<Rightarrow> Inl (ValueError ''No JSON object found in the text.''))"

section \<open>Processing one field\<close>

text \<open>
  \<^verbatim>\<open>str.strip()\<close>: the white space of Python among the code points below 256, removed
  on both ends.
\<close>

definition is_space :: "char \<Rightarrow> bool" where
  "is_space c =
     (of_char c \<in> {9, 10, 11, 12, 13, 28, 29, 30, 31, 32, 133, 160 :: nat})"

definition strip :: "string \<Rightarrow> string" where
  "strip s = rev (dropWhile is_space (rev (dropWhile is_space s)))"

text \<open>
  \<^verbatim>\<open>list(set(xs))\<close>: the distinct values of \<open>xs\<close>, in the order the set iterates them.
\<close>

definition list_of_set :: "runtime \<Rightarrow> term_key list \<Rightarrow> term_key list" where
  "list_of_set rt xs = sort_key (set_order rt) (remdups xs)"

text \<open>\<^verbatim>\<open>xs[:k]\<close>: a negative \<open>k\<close> counts from the end.\<close>

definition slice_to :: "'a list \<Rightarrow> int \<Rightarrow> 'a list" where
  "slice_to xs k =
     (if 0 \<le> k then take (nat k) xs else take (length xs - nat (- k)) xs)"

definition combined_samples :: "runtime \<Rightarrow> diverse_terms \<Rightarrow> int \<Rightarrow> term_key list" where
  "combined_samples rt terms threshold =
     slice_to (list_of_set rt (frequent_terms terms @ rare_terms terms @ significant_terms terms))
              threshold"

fun json_of_key :: "term_key \<Rightarrow> json" where
  "json_of_key (KeyStr s) = JStr s"
| "json_of_key (KeyInt i) = JInt i"

definition fallback :: "string \<Rightarrow> string \<Rightarrow> string \<Rightarrow> string \<Rightarrow> term_key list \<Rightarrow> json" where
  "fallback field index dtype llm_text samples =
     JObj [(''field_name'', JStr field),
           (''index_name'', JStr index),
           (''data_type'', JStr dtype),
           (''natural_language_description'', JStr llm_text),
           (''sample_value'', (case samples of [] \<Rightarrow> JStr '''' | s # ss \<Rightarrow> json_of_key s))]"

definition process_field ::
  "runtime \<Rightarrow> es_client \<Rightarrow> string \<Rightarrow> field_detail \<Rightarrow> watsonx_wrapper \<Rightarrow> int \<Rightarrow> error + json" where
  "process_field rt es index fd llm_client threshold =
     (let field = field_name fd; dtype = data_type fd in
      case get_diverse_terms es index field dtype threshold of
        Inl e \<Rightarrow> Inl e
      | Inr terms \<Rightarrow>
          (let samples = combined_samples rt terms threshold;
               prompt = generate_prompt index field dtype samples in
           case generate_text llm_client prompt of
             Inl e \<Rightarrow> Inl e
           | Inr raw \<Rightarrow>
               (let llm_text = strip raw in
                case extract_json rt llm_text of
                  Inr result_json \<Rightarrow> Inr result_json
                | Inl e \<Rightarrow>
                    if is_ValueError e
                    then Inr (fallback field index dtype llm_text samples)
                    else Inl e)))"

section \<open>Fan-out over the fields of an index, and over all indices\<close>

text \<open>
  What the coordinating thread does is recorded in a log, passed along as state: a unit
  of work is submitted to the pool, a result is taken from a completed future, and the
  pool is joined when the \<^verbatim>\<open>with\<close> block is left (\<^verbatim>\<open>shutdown(wait=True)\<close>: every unit
  submitted to it has run to its end).
\<close>

datatype event =
    Submitted string string
  | Collected string string
  | Joined string

text \<open>
  \<^verbatim>\<open>as_completed\<close>: the futures in the order it yields them, which is the order of
  their ranks. A future is modelled by the field it was submitted for and the outcome
  of its unit of work.
\<close>

definition as_completed ::
  "runtime \<Rightarrow> nat \<Rightarrow> string \<Rightarrow> (string \<times> 'a) list \<Rightarrow> (string \<times> 'a) list" where
  "as_completed rt max_workers index futures =
     sort_key (\<lambda>(field, outcome). completion_time rt max_workers index field) futures"

text \<open>
  The loop \<^verbatim>\<open>for future in as_completed(futures): metadata.append(future.result())\<close>:
  \<^verbatim>\<open>result()\<close> raises again what the unit of work raised, which ends the loop.
\<close>

fun collect_results ::
  "string \<Rightarrow> (string \<times> (error + json)) list \<Rightarrow> json list \<Rightarrow> event list
     \<Rightarrow> event list \<times> (error + json list)" where
  "collect_results index [] metadata log = (log, Inr metadata)"
| "collect_results index ((field, outcome) # futures) metadata log =
     (case outcome of
        Inl e \<Rightarrow> (log, Inl e)
      | Inr result \<Rightarrow>
          collect_results index futures (metadata @ [result]) (log @ [Collected index field]))"

text \<open>\<^verbatim>\<open>process_index\<close> with the size of the pool as a parameter; the source fixes it to 10.\<close>

definition process_index_pool ::
  "nat \<Rightarrow> runtime \<Rightarrow> es_client \<Rightarrow> string \<Rightarrow> watsonx_wrapper \<Rightarrow> int \<Rightarrow> event list
     \<Rightarrow> event list \<times> (error + json list)" where
  "process_index_pool max_workers rt es index llm_client threshold log =
     (case get_fields es index of
        Inl e \<Rightarrow> (log, Inl e)
      | Inr fields_info \<Rightarrow>
          (let futures = map (\<lambda>field_info.
                                (field_name field_info,
                                 process_field rt es index field_info llm_client threshold))
                             fields_info;
               submitted = log @ map (\<lambda>field_info. Submitted index (field_name field_info))
                                     fields_info;
               (collected, outcome) =
                 collect_results index (as_completed rt max_workers index futures) [] submitted
           in (collected @ [Joined index], outcome)))"

definition process_index ::
  "runtime \<Rightarrow> es_client \<Rightarrow> string \<Rightarrow> watsonx_wrapper \<Rightarrow> int \<Rightarrow> event list
     \<Rightarrow> event list \<times> (error + json list)" where
  "process_index = process_index_pool 10"

fun extend_all ::
  "runtime \<Rightarrow> es_client \<Rightarrow> watsonx_wrapper \<Rightarrow> int \<Rightarrow> string list \<Rightarrow> json list \<Rightarrow> event list
     \<Rightarrow> event list \<times> (error + json list)" where
  "extend_all rt es llm_client threshold [] metadata_dict log = (log, Inr metadata_dict)"
| "extend_all rt es llm_client threshold (index # indices) metadata_dict log =
     (case process_index rt es index llm_client threshold log of
        (log', Inl e) \<Rightarrow> (log', Inl e)
      | (log', Inr metadata) \<Rightarrow>
          extend_all rt es llm_client threshold indices (metadata_dict @ metadata) log')"

definition generate_metadata_dictionary ::
  "runtime \<Rightarrow> es_client \<Rightarrow> watsonx_wrapper \<Rightarrow> int \<Rightarrow> event list
     \<Rightarrow> event list \<times> (error + json list)" where
  "generate_metadata_dictionary rt es llm_client threshold log =
     (case get_indices es of
        Inl e \<Rightarrow> (log, Inl e)
      | Inr indices \<Rightarrow> extend_all rt es llm_client threshold indices [] log)"

section \<open>Observations on the log and on the records\<close>

text \<open>
  The fan-outs of a log are sequential when a unit of work is submitted, and a result
  collected, only while no pool of another index is still open: the argument is the
  index whose pool has been submitted to and not yet joined.
\<close>

fun fan_outs_sequential :: "string option \<Rightarrow> event list \<Rightarrow> bool" where
  "fan_outs_sequential pending [] = True"
| "fan_outs_sequential pending (Submitted index field # log) =
     ((pending = None \<or> pending = Some index) \<and> fan_outs_sequential (Some index) log)"
| "fan_outs_sequential pending (Collected index field # log) =
     (pending = Some index \<and> fan_outs_sequential pending log)"
| "fan_outs_sequential pending (Joined index # log) =
     ((pending = None \<or> pending = Some index) \<and> fan_outs_sequential None log)"

fun submissions :: "event list \<Rightarrow> (string \<times> string) list" where
  "submissions [] = []"
| "submissions (Submitted index field # log) = (index, field) # submissions log"
| "submissions (Collected index field # log) = submissions log"
| "submissions (Joined index # log) = submissions log"

text \<open>The key of a record: its \<^verbatim>\<open>field_name\<close> and \<^verbatim>\<open>index_name\<close> entries, where it has them.\<close>

fun json_get :: "json \<Rightarrow> string \<Rightarrow> json option" where
  "json_get (JObj kvs) k = map_of kvs k"
| "json_get j k = None"

definition record_key :: "json \<Rightarrow> json option \<times> json option" where
  "record_key j = (json_get j ''field_name'', json_get j ''index_name'')"

section \<open>A reference instance of the collaborators\<close>

text \<open>
  A small reader and writer of JSON texts (objects, arrays, strings with the two escapes
  of the quote and the backslash, integers, the three literals), an index with three
  fields, an index with one field and three generation services. They instantiate the services and the runtime in
  the examples that follow the theorems; the theorems themselves hold for every service
  and every runtime.
\<close>

definition ws :: "char \<Rightarrow> bool" where
  "ws c = (c = CHR '' '' \<or> c = CHR 0x09 \<or> c = CHR 0x0A \<or> c = CHR 0x0D)"

definition digit :: "char \<Rightarrow> bool" where
  "digit c = (48 \<le> (of_char c :: nat) \<and> (of_char c :: nat) \<le> 57)"

definition nat_of_digits :: "string \<Rightarrow> nat" where
  "nat_of_digits ds = foldl (\<lambda>a d. 10 * a + (of_char d - 48)) 0 ds"

fun read_chars :: "string \<Rightarrow> (string \<times> string) option" where
  "read_chars [] = None"
| "read_chars [c] = (if c = CHR 0x22 then Some ([], []) else None)"
| "read_chars (c # e # s) =
     (if c = CHR 0x22 then Some ([], e # s)
      else if c = CHR 0x5C then
        (if e = CHR 0x22 \<or> e = CHR 0x5C
         then map_option (\<lambda>(t, r). (e # t, r)) (read_chars s) else None)
      else map_option (\<lambda>(t, r). (c # t, r)) (read_chars (e # s)))"

fun read_value :: "nat \<Rightarrow> string \<Rightarrow> (json \<times> string) option"
  and read_elements :: "nat \<Rightarrow> string \<Rightarrow> json list \<Rightarrow> (json \<times> string) option"
  and read_members :: "nat \<Rightarrow> string \<Rightarrow> (string \<times> json) list \<Rightarrow> (json \<times> string) option" where
  "read_value 0 s = None"
| "read_value (Suc n) s =
     (case dropWhile ws s of
        [] \<Rightarrow> None
      | c # r \<Rightarrow>
          if c = CHR ''{'' then
            (case dropWhile ws r of
               [] \<Rightarrow> None
             | d # r' \<Rightarrow> if d = CHR ''}'' then Some (JObj [], r') else read_members n r [])
          else if c = CHR ''['' then
            (case dropWhile ws r of
               [] \<Rightarrow> None
             | d # r' \<Rightarrow> if d = CHR '']'' then Some (JArr [], r') else read_elements n r [])
          else if c = CHR 0x22 then map_option (\<lambda>(t, r'). (JStr t, r')) (read_chars r)
          else if c = CHR ''-'' \<and> takeWhile digit r \<noteq> [] then
            Some (JInt (- int (nat_of_digits (takeWhile digit r))), dropWhile digit r)
          else if digit c then
            Some (JInt (int (nat_of_digits (takeWhile digit (c # r)))), dropWhile digit r)
          else if take 4 (c # r) = ''true'' then Some (JBool True, drop 3 r)
          else if take 5 (c # r) = ''false'' then Some (JBool False, drop 4 r)
          else if take 4 (c # r) = ''null'' then Some (JNull, drop 3 r)
          else None)"
| "read_elements 0 s acc = None"
| "read_elements (Suc n) s acc =
     (case read_value n s of
        None \<Rightarrow> None
      | Some (v, r) \<Rightarrow>
          (case dropWhile ws r of
             [] \<Rightarrow> None
           | c # r' \<Rightarrow>
               if c = CHR '','' then read_elements n r' (acc @ [v])
               else if c = CHR '']'' then Some (JArr (acc @ [v]), r')
               else None))"
| "read_members 0 s acc = None"
| "read_members (Suc n) s acc =
     (case dropWhile ws s of
        [] \<Rightarrow> None
      | q # r \<Rightarrow>
          if q \<noteq> CHR 0x22 then None
          else
            (case read_chars r of
               None \<Rightarrow> None
             | Some (k, r1) \<Rightarrow>
                 (case dropWhile ws r1 of
                    [] \<Rightarrow> None
                  | c # r2 \<Rightarrow>
                      if c \<noteq> CHR '':'' then None
                      else
                        (case read_value n r2 of
                           None \<Rightarrow> None
                         | Some (v, r3) \<Rightarrow>
                             (case dropWhile ws r3 of
                                [] \<Rightarrow> None
                              | d # r4 \<Rightarrow>
                                  if d = CHR '','' then read_members n r4 (acc @ [(k, v)])
                                  else if d = CHR ''}'' then Some (JObj (acc @ [(k, v)]), r4)
                                  else None)))))"

text \<open>
  The reader refuses a text whose brackets and braces nest deeper than its limit, as the
  recursive scanner of \<^verbatim>\<open>json.loads\<close> does when it reaches the recursion limit of the
  interpreter (1000 frames by default).
\<close>

fun depth_exceeds :: "nat \<Rightarrow> nat \<Rightarrow> string \<Rightarrow> bool" where
  "depth_exceeds limit d [] = False"
| "depth_exceeds limit d (c # s) =
     (if c = CHR ''['' \<or> c = CHR ''{''
      then limit < Suc d \<or> depth_exceeds limit (Suc d) s
      else if c = CHR '']'' \<or> c = CHR ''}'' then depth_exceeds limit (d - 1) s
      else depth_exceeds limit d s)"

definition reference_loads :: "string \<Rightarrow> error + json" where
  "reference_loads s =
     (if depth_exceeds 990 0 s then Inl (RecursionError ''maximum recursion depth exceeded'')
      else
        (case read_value (Suc (length s)) s of
           None \<Rightarrow> Inl (JSONDecodeError ''Expecting value'')
         | Some (v, r) \<Rightarrow>
             if dropWhile ws r = [] then Inr v else Inl (JSONDecodeError ''Extra data'')))"

fun escape :: "string \<Rightarrow> string" where
  "escape [] = []"
| "escape (c # s) = (if c = CHR 0x22 \<or> c = CHR 0x5C then CHR 0x5C # c # escape s else c # escape s)"

fun reference_dumps :: "json \<Rightarrow> string" where
  "reference_dumps JNull = ''null''"
| "reference_dumps (JBool b) = (if b then ''true'' else ''false'')"
| "reference_dumps (JInt i) = str_int i"
| "reference_dumps (JStr s) = dq @ escape s @ dq"
| "reference_dumps (JArr vs) = ''['' @ join '', '' (map reference_dumps vs) @ '']''"
| "reference_dumps (JObj kvs) =
     ''{'' @ join '', '' (map (\<lambda>(k, v). dq @ escape k @ dq @ '': '' @ reference_dumps v) kvs) @ ''}''"


definition reference_runtime :: runtime where
  "reference_runtime =
     \<lparr>json_loads = reference_loads,
      set_order = (\<lambda>k. length (str_key k)),
      completion_time = (\<lambda>max_workers index field. if max_workers = 1 then 0 else length field)\<rparr>"

definition employee_properties :: "(string \<times> details) list" where
  "employee_properties =
     [(''GenderCode'', [''type'' \<mapsto> ''keyword'']),
      (''Division'', [''type'' \<mapsto> ''text'']),
      (''Address'', Map.empty)]"

definition term_buckets :: "string \<Rightarrow> search_response" where
  "term_buckets f =
     (if f = ''GenderCode'' then
        \<lparr>frequent_terms_buckets =
           [\<lparr>bucket_key = KeyStr ''Male'', doc_count = 60\<rparr>,
            \<lparr>bucket_key = KeyStr ''Female'', doc_count = 40\<rparr>],
         rare_terms_buckets = [],
         significant_terms_buckets = [\<lparr>bucket_key = KeyStr ''Male'', doc_count = 60\<rparr>],
         unique_count_value = 2,
         sample_docs_hits = []\<rparr>
      else if f = ''Division.keyword'' then
        \<lparr>frequent_terms_buckets =
           [\<lparr>bucket_key = KeyStr ''Field Operations'', doc_count = 70\<rparr>,
            \<lparr>bucket_key = KeyStr ''Aerial'', doc_count = 20\<rparr>,
            \<lparr>bucket_key = KeyStr ''Field Operations'', doc_count = 70\<rparr>],
         rare_terms_buckets = [\<lparr>bucket_key = KeyStr ''Splicing'', doc_count = 2\<rparr>],
         significant_terms_buckets = [\<lparr>bucket_key = KeyStr ''Aerial'', doc_count = 20\<rparr>],
         unique_count_value = 3,
         sample_docs_hits = []\<rparr>
      else
        \<lparr>frequent_terms_buckets = [],
         rare_terms_buckets = [],
         significant_terms_buckets = [],
         unique_count_value = 0,
         sample_docs_hits = []\<rparr>)"

definition employee_es :: es_client where
  "employee_es =
     \<lparr>es_get_alias = Inr [''employee_data'', ''department_data''],
      es_get_mapping =
        (\<lambda>index. if index = ''employee_data''
                  then Inr [(''employee_data'', Some employee_properties)]
                else if index = ''department_data''
                  then Inr [(''department_data'', Some [(''DeptName'', [''type'' \<mapsto> ''keyword''])])]
                else Inl (ApiError ''index_not_found_exception'')),
      es_search =
        (\<lambda>index q.
           if index \<noteq> ''employee_data'' \<and> index \<noteq> ''department_data''
           then Inl (ApiError ''index_not_found_exception'')
           else (case map_of q ''unique_count'' of
                   Some (Cardinality f) \<Rightarrow> Inr (term_buckets f)
                 | _ \<Rightarrow> Inl (ApiError ''parsing_exception'')))\<rparr>"

definition gender_record :: json where
  "gender_record =
     JObj [(''field_name'', JStr ''GenderCode''),
           (''index_name'', JStr ''employee_data''),
           (''data_type'', JStr ''keyword''),
           (''natural_language_description'', JStr ''The gender of the employee.''),
           (''sample_value'', JStr ''Male, Female'')]"

definition gender_prompt :: string where
  "gender_prompt =
     generate_prompt ''employee_data'' ''GenderCode'' ''keyword'' [KeyStr ''Male'', KeyStr ''Female'']"

definition division_prompt :: string where
  "division_prompt =
     generate_prompt ''employee_data'' ''Division'' ''text''
       [KeyStr ''Aerial'', KeyStr ''Splicing'', KeyStr ''Field Operations'']"

definition describing_llm :: watsonx_wrapper where
  "describing_llm =
     \<lparr>generate_text =
        (\<lambda>prompt. if prompt = gender_prompt
                   then Inr (''Here is the entry:\<newline>'' @ reference_dumps gender_record @ ''\<newline>'')
                   else Inr ''  I cannot describe this field.\<newline>'')\<rparr>"

definition timing_out_llm :: watsonx_wrapper where
  "timing_out_llm =
     \<lparr>generate_text =
        (\<lambda>prompt. if prompt = division_prompt
                   then Inl (TransportError ''Read timed out'')
                   else generate_text describing_llm prompt)\<rparr>"

text \<open>A generation service that answers every prompt with the same record.\<close>

definition repeating_llm :: watsonx_wrapper where
  "repeating_llm = \<lparr>generate_text = (\<lambda>prompt. Inr (reference_dumps gender_record))\<rparr>"

text \<open>An object that holds 995 arrays, one in the other.\<close>

definition nested_text :: string where
  "nested_text =
     ''{'' @ dq @ ''a'' @ dq @ '':'' @ replicate 995 CHR ''['' @ replicate 995 CHR '']'' @ ''}''"

section \<open>Auxiliary function for the proofs\<close>

text \<open>
  The rests of a text after each closing brace, the last closing brace first: what is
  left to the pattern's final \<open>}\<close> after the greedy star.
\<close>

fun after_close :: "string \<Rightarrow> string list" where
  "after_close [] = []"
| "after_close (c # s) = after_close s @ (if c = CHR ''}'' then [s] else [])"

section \<open>What the pattern matches\<close>

text \<open>
  The star over \<^verbatim>\<open>(?:.|\n)\<close> can stop after every character, the longest repetition
  first; so the search returns the text from the first opening brace to the last closing
  brace after it, and nothing where no closing brace follows an opening one.
\<close>

lemma re_match_any_char: "re_match (Alt AnyChar (Lit CHR 0x0A)) (c # s) = [s]"
  by simp

lemma re_match_any_char_Nil: "re_match (Alt AnyChar (Lit CHR 0x0A)) [] = []"
  by simp
lemma re_match_star_any: "re_match (Star (Alt AnyChar (Lit CHR 0x0A))) s = suffixes s"
proof (induction s)
  case Nil
  show ?case by (simp del: re_match.simps(3) add: re_match.simps(5) re_match_any_char_Nil)
next
  case (Cons c s)
  have "re_match (Star (Alt AnyChar (Lit CHR 0x0A))) (c # s)
          = re_match (Star (Alt AnyChar (Lit CHR 0x0A))) s @ [c # s]"
    by (subst re_match.simps(5)) (simp only: re_match_any_char, simp del: re_match.simps)
  then show ?case using Cons by simp
qed
lemma close_suffixes: "concat (map (re_match (Lit CHR ''}'')) (suffixes s)) = after_close s"
  by (induction s) auto

lemma re_match_pattern_open:
  "re_match pattern (CHR ''{'' # s) = after_close s"
  by (simp add: pattern_def re_match_star_any close_suffixes del: re_match.simps(5) re_match.simps(3))

lemma re_match_pattern_other:
  "c \<noteq> CHR ''{'' \<Longrightarrow> re_match pattern (c # s) = []"
  by (simp add: pattern_def del: re_match.simps(5))

lemma re_match_pattern_Nil: "re_match pattern [] = []"
  by (simp add: pattern_def del: re_match.simps(5))

lemma after_close_none: "CHR ''}'' \<notin> set s \<Longrightarrow> after_close s = []"
  by (induction s) auto

lemma after_close_last:
  "CHR ''}'' \<notin> set post \<Longrightarrow> \<exists>rest. after_close (body @ CHR ''}'' # post) = post # rest"
  by (induction body) (auto simp: after_close_none)

lemma re_search_no_close: "CHR ''}'' \<notin> set s \<Longrightarrow> re_search pattern s = None"
proof (induction s)
  case Nil
  then show ?case by (simp add: re_match_pattern_Nil)
next
  case (Cons c s)
  then show ?case
    by (cases "c = CHR ''{''") (simp_all add: re_match_pattern_open re_match_pattern_other after_close_none)
qed

lemma re_search_skip:
  "CHR ''{'' \<notin> set pre \<Longrightarrow> re_search pattern (pre @ s) = re_search pattern s"
proof (induction pre)
  case Nil
  show ?case by simp
next
  case (Cons c pre)
  then have "c \<noteq> CHR ''{''" by auto
  then have "re_match pattern (c # pre @ s) = []" by (rule re_match_pattern_other)
  then show ?case using Cons by simp
qed

lemma re_search_span:
  assumes "CHR ''{'' \<notin> set pre" "CHR ''}'' \<notin> set post"
  shows "re_search pattern (pre @ CHR ''{'' # body @ CHR ''}'' # post) = Some (CHR ''{'' # body @ ''}'')"
proof -
  obtain rest where r: "after_close (body @ CHR ''}'' # post) = post # rest"
    using after_close_last [OF assms(2)] by blast
  have "re_search pattern (CHR ''{'' # body @ CHR ''}'' # post) = Some (CHR ''{'' # body @ ''}'')"
    by (simp add: re_match_pattern_open r)
  then show ?thesis using re_search_skip [OF assms(1)] by simp
qed

lemma re_search_no_span:
  assumes "\<not> (\<exists>pre body post. text = pre @ CHR ''{'' # body @ CHR ''}'' # post)"
  shows "re_search pattern text = None"
proof (cases "CHR ''{'' \<in> set text")
  case False
  then have "re_search pattern (text @ []) = re_search pattern []"
    by (rule re_search_skip)
  then show ?thesis by (simp add: re_match_pattern_Nil)
next
  case True
  then obtain pre s where t: "text = pre @ CHR ''{'' # s" "CHR ''{'' \<notin> set pre"
    by (meson split_list_first)
  have "CHR ''}'' \<notin> set s"
  proof
    assume "CHR ''}'' \<in> set s"
    then obtain body post where "s = body @ CHR ''}'' # post" by (meson split_list)
    with t assms show False by blast
  qed
  then have "re_search pattern (CHR ''{'' # s) = None"
    by (simp add: re_match_pattern_open after_close_none re_search_no_close)
  then show ?thesis using t re_search_skip [of pre] by simp
qed

lemma span_exists_first_last:
  assumes "text = pre @ CHR ''{'' # body @ CHR ''}'' # post"
  shows "\<exists>pre' body' post'. text = pre' @ CHR ''{'' # body' @ CHR ''}'' # post'
            \<and> CHR ''{'' \<notin> set pre' \<and> CHR ''}'' \<notin> set post'"
proof -
  have "CHR ''{'' \<in> set text" using assms by simp
  then obtain p s where t: "text = p @ CHR ''{'' # s" "CHR ''{'' \<notin> set p"
    by (meson split_list_first)
  have "CHR ''}'' \<in> set s"
  proof -
    have "length p \<le> length pre"
    proof (rule ccontr)
      assume "\<not> length p \<le> length pre"
      then have "length pre < length p" by simp
      moreover have "text ! length pre = CHR ''{''" using assms by (simp add: nth_append)
      moreover have "text ! length pre = p ! length pre" using t(1) \<open>length pre < length p\<close> by (simp add: nth_append)
      ultimately show False using t(2) nth_mem by metis
    qed
    have "drop (Suc (length p)) text = s" using t(1) by simp
    moreover have "drop (Suc (length pre)) text = body @ CHR ''}'' # post" using assms by simp
    ultimately have "drop (length pre - length p) s = body @ CHR ''}'' # post"
      using \<open>length p \<le> length pre\<close> by (metis drop_drop add_Suc_right le_add_diff_inverse2 add.commute)
    then have "CHR ''}'' \<in> set (drop (length pre - length p) s)" by simp
    then show ?thesis by (meson in_set_dropD)
  qed
  then obtain b q where "s = b @ CHR ''}'' # q" "CHR ''}'' \<notin> set q"
    by (meson split_list_last)
  with t show ?thesis by blast
qed

section \<open>The outcome and the log of a fan-out\<close>


lemma collect_results_log:
  "fst (collect_results index futures metadata log)
     = log @ map (\<lambda>(field, outcome). Collected index field) (takeWhile (\<lambda>(field, outcome). \<not> isl outcome) futures)"
  by (induction index futures metadata log rule: collect_results.induct)
     (auto split: sum.splits)

lemma collect_results_outcome:
  "snd (collect_results index futures metadata log)
     = (case dropWhile (\<lambda>(field, outcome). \<not> isl outcome) futures of
          [] \<Rightarrow> Inr (metadata @ map (\<lambda>(field, outcome). projr outcome) futures)
        | (field, outcome) # rest \<Rightarrow> Inl (projl outcome))"
proof (induction index futures metadata log rule: collect_results.induct)
  case (1 index metadata log)
  show ?case by simp
next
  case (2 index field outcome futures metadata log)
  show ?case
  proof (cases outcome)
    case (Inl e)
    then show ?thesis by simp
  next
    case (Inr result)
    then show ?thesis
      using 2 [OF Inr]
      by (cases "dropWhile (\<lambda>(field, outcome). \<not> isl outcome) futures")
         (simp_all del: dropWhile_eq_Nil_conv)
  qed
qed
lemma dropWhile_ok_Cons:
  "dropWhile (\<lambda>(field, outcome). \<not> isl outcome) futures = (field, outcome) # rest
     \<Longrightarrow> isl outcome \<and> (field, outcome) \<in> set futures"
  by (metis (no_types, lifting) case_prod_conv dropWhile_eq_Cons_conv in_set_conv_decomp)

lemma mset_as_completed: "mset (as_completed rt w index futures) = mset futures"
  by (simp add: as_completed_def)

lemma set_as_completed: "set (as_completed rt w index futures) = set futures"
  by (simp add: as_completed_def)
lemma process_index_pool_outcome:
  assumes "get_fields es index = Inr fields_info"
  shows "snd (process_index_pool w rt es index llm_client threshold log)
     = snd (collect_results index
             (as_completed rt w index
                (map (\<lambda>field_info. (field_name field_info,
                        process_field rt es index field_info llm_client threshold)) fields_info))
             [] [])"
  using assms
  by (simp add: process_index_pool_def Let_def split_beta collect_results_outcome)

lemma process_index_pool_log:
  assumes "get_fields es index = Inr fields_info"
  shows "fst (process_index_pool w rt es index llm_client threshold log)
     = log @ map (\<lambda>field_info. Submitted index (field_name field_info)) fields_info
         @ map (\<lambda>(field, outcome). Collected index field)
             (takeWhile (\<lambda>(field, outcome). \<not> isl outcome)
                (as_completed rt w index
                   (map (\<lambda>field_info. (field_name field_info,
                        process_field rt es index field_info llm_client threshold)) fields_info)))
         @ [Joined index]"
  using assms
  by (simp add: process_index_pool_def Let_def split_beta collect_results_log)

lemma process_index_pool_fails:
  assumes "get_fields es index = Inl e"
  shows "process_index_pool w rt es index llm_client threshold log = (log, Inl e)"
  using assms by (simp add: process_index_pool_def)



lemma process_index_pool_cases:
  assumes "get_fields es index = Inr fields_info"
  shows "((\<forall>field_info \<in> set fields_info.
               \<not> isl (process_field rt es index field_info llm_client threshold))
          \<and> (\<exists>metadata.
                 snd (process_index_pool w rt es index llm_client threshold log) = Inr metadata
                 \<and> mset metadata
                     = mset (map (\<lambda>field_info.
                           projr (process_field rt es index field_info llm_client threshold))
                         fields_info)))
        \<or> (\<exists>e. snd (process_index_pool w rt es index llm_client threshold log) = Inl e
                 \<and> (\<exists>field_info \<in> set fields_info.
                       process_field rt es index field_info llm_client threshold = Inl e))"
proof -
  define futures where "futures =
    map (\<lambda>field_info. (field_name field_info,
           process_field rt es index field_info llm_client threshold)) fields_info"
  define completed where "completed = as_completed rt w index futures"
  define failing where "failing = dropWhile (\<lambda>(field, outcome). \<not> isl outcome) completed"
  have outcome: "snd (process_index_pool w rt es index llm_client threshold log)
      = (case failing of
           [] \<Rightarrow> Inr (map (\<lambda>(field, outcome). projr outcome) completed)
         | (field, outcome) # rest \<Rightarrow> Inl (projl outcome))"
    unfolding failing_def completed_def futures_def
    by (simp add: process_index_pool_outcome [OF assms] collect_results_outcome
             cong: list.case_cong)
  have snd_futures: "snd ` set futures
      = (\<lambda>field_info. process_field rt es index field_info llm_client threshold) ` set fields_info"
    by (force simp: futures_def)
  show ?thesis
  proof (cases failing)
    case Nil
    then have "\<forall>future \<in> set completed. \<not> isl (snd future)"
      by (auto simp: failing_def)
    then have "\<forall>future \<in> set futures. \<not> isl (snd future)"
      by (simp add: completed_def set_as_completed)
    then have ok: "\<forall>field_info \<in> set fields_info.
        \<not> isl (process_field rt es index field_info llm_client threshold)"
      by (simp add: futures_def)
    have "mset (map (\<lambda>(field, outcome). projr outcome) completed)
        = mset (map (\<lambda>(field, outcome). projr outcome) futures)"
      by (simp add: completed_def mset_as_completed)
    also have "map (\<lambda>(field, outcome). projr outcome) futures
        = map (\<lambda>field_info.
            projr (process_field rt es index field_info llm_client threshold)) fields_info"
      by (simp add: futures_def)
    finally have "mset (map (\<lambda>(field, outcome). projr outcome) completed)
        = mset (map (\<lambda>field_info.
        projr (process_field rt es index field_info llm_client threshold)) fields_info)" .
    moreover have "snd (process_index_pool w rt es index llm_client threshold log)
        = Inr (map (\<lambda>(field, outcome). projr outcome) completed)"
      using outcome Nil by simp
    ultimately show ?thesis using ok by blast
  next
    case (Cons future rest)
    obtain field outcome' where future: "future = (field, outcome')" by (cases future)
    have "isl outcome' \<and> (field, outcome') \<in> set completed"
      using Cons future dropWhile_ok_Cons [of completed field outcome' rest]
      by (simp add: failing_def)
    then have "isl outcome'" and "outcome' \<in> snd ` set futures"
      by (force simp: completed_def set_as_completed)+
    then obtain field_info where fi: "field_info \<in> set fields_info"
        "process_field rt es index field_info llm_client threshold = outcome'"
      using snd_futures by auto
    have "outcome' = Inl (projl outcome')" using \<open>isl outcome'\<close> by simp
    moreover have "snd (process_index_pool w rt es index llm_client threshold log)
        = Inl (projl outcome')"
      using outcome Cons future by simp
    ultimately show ?thesis using fi by metis
  qed
qed

lemma process_index_pool_all_ok:
  assumes "get_fields es index = Inr fields_info"
    and "\<forall>field_info \<in> set fields_info.
           \<not> isl (process_field rt es index field_info llm_client threshold)"
  shows "\<exists>metadata.
           snd (process_index_pool w rt es index llm_client threshold log) = Inr metadata
           \<and> mset metadata
               = mset (map (\<lambda>field_info.
                     projr (process_field rt es index field_info llm_client threshold))
                   fields_info)"
proof -
  have "\<not> (\<exists>e. \<exists>field_info \<in> set fields_info.
            process_field rt es index field_info llm_client threshold = Inl e)"
    using assms(2) by (metis sum.disc(1))
  then show ?thesis
    using process_index_pool_cases [OF assms(1), of rt llm_client threshold w log] by blast
qed

lemma process_index_pool_some_failure:
  assumes "get_fields es index = Inr fields_info"
    and "\<exists>field_info \<in> set fields_info.
           isl (process_field rt es index field_info llm_client threshold)"
  shows "\<exists>e. snd (process_index_pool w rt es index llm_client threshold log) = Inl e
           \<and> (\<exists>field_info \<in> set fields_info.
                 process_field rt es index field_info llm_client threshold = Inl e)"
  using process_index_pool_cases [OF assms(1), of rt llm_client threshold w log] assms(2)
  by blast

lemma process_index_pool_first_failure:
  assumes "get_fields es index = Inr fields_info"
    and "\<exists>field_info \<in> set fields_info.
           isl (process_field rt es index field_info llm_client threshold)"
  shows "\<exists>e before field after.
           as_completed rt w index
             (map (\<lambda>field_info. (field_name field_info,
                     process_field rt es index field_info llm_client threshold)) fields_info)
             = before @ (field, Inl e) # after
           \<and> (\<forall>future \<in> set before. \<not> isl (snd future))
           \<and> snd (process_index_pool w rt es index llm_client threshold log) = Inl e"
proof -
  define completed where "completed = as_completed rt w index
    (map (\<lambda>field_info. (field_name field_info,
            process_field rt es index field_info llm_client threshold)) fields_info)"
  define ok where "ok = (\<lambda>(field :: string, outcome :: error + json). \<not> isl outcome)"
  have outcome: "snd (process_index_pool w rt es index llm_client threshold log)
      = (case dropWhile ok completed of
           [] \<Rightarrow> Inr (map (\<lambda>(field, outcome). projr outcome) completed)
         | (field, outcome) # rest \<Rightarrow> Inl (projl outcome))"
    unfolding completed_def ok_def
    by (simp add: process_index_pool_outcome [OF assms(1)] collect_results_outcome
             cong: list.case_cong)
  obtain field_info where "field_info \<in> set fields_info"
      "isl (process_field rt es index field_info llm_client threshold)"
    using assms(2) by blast
  then have "(field_name field_info, process_field rt es index field_info llm_client threshold)
      \<in> set completed"
    by (simp add: completed_def set_as_completed)
  then have "\<exists>future \<in> set completed. \<not> ok future"
    using \<open>isl (process_field rt es index field_info llm_client threshold)\<close>
    by (force simp: ok_def)
  then have "dropWhile ok completed \<noteq> []" by simp
  then obtain future after where d: "dropWhile ok completed = future # after"
    by (cases "dropWhile ok completed") auto
  obtain field outcome where f: "future = (field, outcome)" by (cases future)
  have "\<not> ok future" using d by (metis hd_dropWhile list.sel(1) list.distinct(1))
  then have "isl outcome" by (simp add: ok_def f)
  then obtain e where e: "outcome = Inl e" by (cases outcome) auto
  have "completed = takeWhile ok completed @ (field, Inl e) # after"
    using d f e by (metis takeWhile_dropWhile_id)
  moreover have "\<forall>future \<in> set (takeWhile ok completed). \<not> isl (snd future)"
    using set_takeWhileD [of _ ok completed] by (force simp: ok_def)
  moreover have "snd (process_index_pool w rt es index llm_client threshold log) = Inl e"
    using outcome d f e by simp
  ultimately show ?thesis unfolding completed_def by blast
qed

lemma echoed_keys:
  assumes "get_fields es index = Inr fields_info"
    and "distinct (map field_name fields_info)"
    and "\<forall>field_info \<in> set fields_info.
           \<exists>result. process_field rt es index field_info llm_client threshold = Inr result
             \<and> record_key result = (Some (JStr (field_name field_info)), Some (JStr index))"
    and "snd (process_index_pool w rt es index llm_client threshold log) = Inr metadata"
  shows "distinct (map record_key metadata)
         \<and> mset (map record_key metadata)
             = mset (map (\<lambda>field_info. (Some (JStr (field_name field_info)), Some (JStr index)))
                         fields_info)"
proof -
  let ?key = "\<lambda>field_info. (Some (JStr (field_name field_info)), Some (JStr index))"
  let ?result = "\<lambda>field_info. projr (process_field rt es index field_info llm_client threshold)"
  have ok: "\<forall>field_info \<in> set fields_info.
      \<not> isl (process_field rt es index field_info llm_client threshold)"
    using assms(3) by auto
  obtain m where m: "snd (process_index_pool w rt es index llm_client threshold log) = Inr m"
      "mset m = mset (map ?result fields_info)"
    using process_index_pool_all_ok [OF assms(1) ok, of w log] by blast
  have "m = metadata" using m(1) assms(4) by simp
  then have "mset (map record_key metadata) = mset (map record_key (map ?result fields_info))"
    using m(2) by (metis mset_map)
  also have "map record_key (map ?result fields_info) = map ?key fields_info"
    using assms(3) by auto
  finally have keys: "mset (map record_key metadata) = mset (map ?key fields_info)" .
  have "map ?key fields_info
      = map (\<lambda>name. (Some (JStr name), Some (JStr index))) (map field_name fields_info)"
    by simp
  moreover have "distinct (map (\<lambda>name. (Some (JStr name), Some (JStr index)))
      (map field_name fields_info))"
    using assms(2) by (subst distinct_map) (simp add: inj_on_def)
  ultimately have "distinct (map ?key fields_info)" by (simp add: comp_def)
  then have "distinct (map record_key metadata)"
    using keys by (metis mset_eq_imp_distinct_iff)
  then show ?thesis using keys by simp
qed

lemma sequential_collected:
  "fan_outs_sequential (Some index)
     (map (\<lambda>(field, outcome). Collected index field) futures @ Joined index # rest)
     = fan_outs_sequential None rest"
  for futures :: "(string \<times> (error + json)) list"
  by (induction futures) auto

lemma sequential_submitted:
  "fields_info \<noteq> [] \<Longrightarrow>
   fan_outs_sequential pending
     (map (\<lambda>field_info. Submitted index (field_name field_info)) fields_info @ rest)
     = ((pending = None \<or> pending = Some index) \<and> fan_outs_sequential (Some index) rest)"
proof (induction fields_info arbitrary: pending)
  case Nil
  then show ?case by simp
next
  case (Cons field_info fields_info)
  then show ?case by (cases "fields_info = []") auto
qed

lemma process_index_pool_log_independent:
  "process_index_pool w rt es index llm_client threshold log
     = (log @ fst (process_index_pool w rt es index llm_client threshold []),
        snd (process_index_pool w rt es index llm_client threshold []))"
proof (cases "get_fields es index")
  case (Inl e)
  then show ?thesis by (simp add: process_index_pool_fails)
next
  case (Inr fields_info)
  show ?thesis
    using process_index_pool_log [OF Inr, of w rt llm_client threshold log]
      process_index_pool_log [OF Inr, of w rt llm_client threshold "[]"]
      process_index_pool_outcome [OF Inr, of w rt llm_client threshold log]
      process_index_pool_outcome [OF Inr, of w rt llm_client threshold "[]"]
    by (simp add: prod_eq_iff)
qed

lemma process_index_pool_sequential:
  "fan_outs_sequential None (fst (process_index_pool w rt es index llm_client threshold []) @ rest)
     = fan_outs_sequential None rest"
proof (cases "get_fields es index")
  case (Inl e)
  then show ?thesis by (simp add: process_index_pool_fails)
next
  case (Inr fields_info)
  show ?thesis
  proof (cases "fields_info = []")
    case True
    then show ?thesis
      by (simp add: process_index_pool_log [OF Inr] as_completed_def)
  next
    case False
    then show ?thesis
      by (simp add: process_index_pool_log [OF Inr] sequential_submitted sequential_collected)
  qed
qed

lemma extend_all_log:
  "\<exists>new. fst (extend_all rt es llm_client threshold indices metadata_dict log) = log @ new
      \<and> fan_outs_sequential None new"
proof (induction indices arbitrary: metadata_dict log)
  case Nil
  show ?case by simp
next
  case (Cons index indices)
  define block where "block = fst (process_index rt es index llm_client threshold [])"
  have step: "process_index rt es index llm_client threshold log
      = (log @ block, snd (process_index rt es index llm_client threshold []))"
    unfolding block_def process_index_def by (rule process_index_pool_log_independent)
  have block: "fan_outs_sequential None (block @ rest) = fan_outs_sequential None rest" for rest
    unfolding block_def process_index_def by (rule process_index_pool_sequential)
  show ?case
  proof (cases "snd (process_index rt es index llm_client threshold [])")
    case (Inl e)
    then have "fst (extend_all rt es llm_client threshold (index # indices) metadata_dict log)
        = log @ block" using step by simp
    moreover have "fan_outs_sequential None block" using block [of "[]"] by simp
    ultimately show ?thesis by blast
  next
    case (Inr metadata)
    obtain new where new:
        "fst (extend_all rt es llm_client threshold indices (metadata_dict @ metadata) (log @ block))
           = (log @ block) @ new" "fan_outs_sequential None new"
      using Cons by blast
    have "fst (extend_all rt es llm_client threshold (index # indices) metadata_dict log)
        = log @ (block @ new)" using step Inr new(1) by simp
    moreover have "fan_outs_sequential None (block @ new)" using block new(2) by simp
    ultimately show ?thesis by blast
  qed
qed
lemma extend_all_success:
  assumes "\<forall>index \<in> set indices.
             snd (process_index rt es index llm_client threshold []) = Inr (per_index index)"
  shows "extend_all rt es llm_client threshold indices metadata_dict log
           = (log @ concat (map (\<lambda>index. fst (process_index rt es index llm_client threshold []))
                                indices),
              Inr (metadata_dict @ concat (map per_index indices)))"
  using assms
proof (induction indices arbitrary: metadata_dict log)
  case Nil
  show ?case by simp
next
  case (Cons index indices)
  have step: "process_index rt es index llm_client threshold log
      = (log @ fst (process_index rt es index llm_client threshold []), Inr (per_index index))"
    using Cons.prems process_index_pool_log_independent [of 10 rt es index llm_client threshold log]
    by (simp add: process_index_def)
  show ?case using Cons step by simp
qed

lemma extend_all_first_failure:
  assumes "\<forall>index \<in> set before.
             \<not> isl (snd (process_index rt es index llm_client threshold []))"
    and "snd (process_index rt es index llm_client threshold []) = Inl e"
  shows "snd (extend_all rt es llm_client threshold (before @ index # after) metadata_dict log)
           = Inl e"
  using assms(1)
proof (induction before arbitrary: metadata_dict log)
  case Nil
  have "process_index rt es index llm_client threshold log
      = (log @ fst (process_index rt es index llm_client threshold []), Inl e)"
    using assms(2) process_index_pool_log_independent [of 10 rt es index llm_client threshold log]
    by (simp add: process_index_def)
  then show ?case by simp
next
  case (Cons first before)
  then obtain metadata where
      "snd (process_index rt es first llm_client threshold []) = Inr metadata"
    by (cases "snd (process_index rt es first llm_client threshold [])") auto
  then have "process_index rt es first llm_client threshold log
      = (log @ fst (process_index rt es first llm_client threshold []), Inr metadata)"
    using process_index_pool_log_independent [of 10 rt es first llm_client threshold log]
    by (simp add: process_index_def)
  then show ?case using Cons by simp
qed

lemma extract_json_no_span:
  "re_search pattern text = None
     \<Longrightarrow> extract_json rt text = Inl (ValueError ''No JSON object found in the text.'')"
  by (simp add: extract_json_def)

lemma extract_json_span:
  "re_search pattern text = Some span
     \<Longrightarrow> extract_json rt text
           = (case json_loads rt span of
                Inr obj \<Rightarrow> Inr obj
              | Inl (JSONDecodeError e) \<Rightarrow> Inl (ValueError (''Error parsing JSON: '' @ e))
              | Inl other \<Rightarrow> Inl other)"
  by (simp add: extract_json_def)

lemma set_strip: "set (strip s) \<subseteq> set s"
proof -
  have "set (dropWhile is_space (rev (dropWhile is_space s))) \<subseteq> set (rev (dropWhile is_space s))"
    by (rule set_dropWhileD [THEN subsetI])
  also have "\<dots> \<subseteq> set s" using set_dropWhileD [of _ is_space s] by auto
  finally show ?thesis by (simp add: strip_def)
qed

lemma extract_json_no_braces:
  assumes "CHR ''{'' \<notin> set text \<or> CHR ''}'' \<notin> set text"
  shows "extract_json rt text = Inl (ValueError ''No JSON object found in the text.'')"
proof -
  have "\<nexists>pre body post. text = pre @ CHR ''{'' # body @ CHR ''}'' # post"
    using assms by auto
  then show ?thesis by (simp add: extract_json_def re_search_no_span)
qed
lemma process_index_submissions:
  assumes "get_fields es index = Inr fields_info"
  shows "submissions (fst (process_index_pool w rt es index llm_client threshold []))
           = map (\<lambda>field_info. (index, field_name field_info)) fields_info"
proof -
  have sub: "submissions (map (\<lambda>field_info. Submitted index (field_name field_info)) fields_info @ rest)
      = map (\<lambda>field_info. (index, field_name field_info)) fields_info @ submissions rest"
    for rest by (induction fields_info) simp_all
  have col: "submissions (map (\<lambda>(field, outcome). Collected index field) futures @ rest)
      = submissions rest" for futures :: "(string \<times> (error + json)) list" and rest
    by (induction futures) auto
  show ?thesis
    by (simp add: process_index_pool_log [OF assms] sub col)
qed

section \<open>The reference instance, evaluated\<close>

lemma employee_fields:
  "get_fields employee_es ''employee_data''
     = Inr [\<lparr>field_name = ''GenderCode'', data_type = ''keyword''\<rparr>,
            \<lparr>field_name = ''Division'', data_type = ''text''\<rparr>,
            \<lparr>field_name = ''Address'', data_type = ''unknown''\<rparr>]"
  by (simp add: get_fields_def employee_es_def employee_properties_def dict_get_def)

lemma gender_terms:
  "get_diverse_terms employee_es ''employee_data'' ''GenderCode'' ''keyword'' threshold
     = Inr \<lparr>frequent_terms = [KeyStr ''Male'', KeyStr ''Female''], rare_terms = [],
            significant_terms = [KeyStr ''Male''], unique_count = 2, sample_docs = []\<rparr>"
  by (simp add: get_diverse_terms_def employee_es_def diverse_terms_query_def agg_field_def
        term_buckets_def)

lemma division_terms:
  "get_diverse_terms employee_es ''employee_data'' ''Division'' ''text'' threshold
     = Inr \<lparr>frequent_terms = [KeyStr ''Field Operations'', KeyStr ''Aerial'', KeyStr ''Field Operations''],
            rare_terms = [KeyStr ''Splicing''],
            significant_terms = [KeyStr ''Aerial''], unique_count = 3, sample_docs = []\<rparr>"
  by (simp add: get_diverse_terms_def employee_es_def diverse_terms_query_def agg_field_def
        term_buckets_def)

lemma address_terms:
  "get_diverse_terms employee_es ''employee_data'' ''Address'' ''unknown'' threshold
     = Inr \<lparr>frequent_terms = [], rare_terms = [],
            significant_terms = [], unique_count = 0, sample_docs = []\<rparr>"
  by (simp add: get_diverse_terms_def employee_es_def diverse_terms_query_def agg_field_def
        term_buckets_def)

lemma gender_samples:
  "combined_samples reference_runtime
     \<lparr>frequent_terms = [KeyStr ''Male'', KeyStr ''Female''], rare_terms = [],
      significant_terms = [KeyStr ''Male''], unique_count = 2, sample_docs = []\<rparr> 20
     = [KeyStr ''Male'', KeyStr ''Female'']"
  by (simp add: combined_samples_def list_of_set_def slice_to_def reference_runtime_def)

lemma division_samples:
  "combined_samples reference_runtime
     \<lparr>frequent_terms = [KeyStr ''Field Operations'', KeyStr ''Aerial'', KeyStr ''Field Operations''],
            rare_terms = [KeyStr ''Splicing''],
            significant_terms = [KeyStr ''Aerial''], unique_count = 3, sample_docs = []\<rparr> 20
     = [KeyStr ''Aerial'', KeyStr ''Splicing'', KeyStr ''Field Operations'']"
  by (simp add: combined_samples_def list_of_set_def slice_to_def reference_runtime_def)


lemma address_samples:
  "combined_samples reference_runtime
     \<lparr>frequent_terms = [], rare_terms = [],
            significant_terms = [], unique_count = 0, sample_docs = []\<rparr> 20
     = []"
  by (simp add: combined_samples_def list_of_set_def slice_to_def reference_runtime_def)

lemma prompts_differ:
  "generate_prompt ''employee_data'' ''Division'' ''text'' s \<noteq> gender_prompt"
  "generate_prompt ''employee_data'' ''Address'' ''unknown'' s \<noteq> gender_prompt"
  "generate_prompt ''employee_data'' ''Address'' ''unknown'' s \<noteq> division_prompt"
  "gender_prompt \<noteq> division_prompt"
  by (simp_all add: gender_prompt_def division_prompt_def generate_prompt_def
        LLAMA3_BASE_PROMPT_def USER_PROMPT_TEMPLATE_def)

lemma strip_refusal:
  "strip ''  I cannot describe this field.\<newline>'' = ''I cannot describe this field.''"
  by code_simp

lemma refusal_no_json:
  "extract_json rt ''I cannot describe this field.'' = Inl (ValueError ''No JSON object found in the text.'')"
  by (simp add: extract_json_def pattern_def del: re_match.simps(5))
lemma gender_dumped:
  "reference_dumps gender_record
     = CHR ''{'' # butlast (tl (reference_dumps gender_record)) @ ''}''"
  by code_simp

lemma gender_loaded: "reference_loads (reference_dumps gender_record) = Inr gender_record"
  by code_simp

lemma gender_stripped:
  "strip (''Here is the entry:\<newline>'' @ reference_dumps gender_record @ ''\<newline>'')
     = ''Here is the entry:\<newline>'' @ reference_dumps gender_record"
  by code_simp

lemma gender_answer:
  "extract_json reference_runtime
     (strip (''Here is the entry:\<newline>'' @ reference_dumps gender_record @ ''\<newline>''))
     = Inr gender_record"
proof -
  define body where "body = butlast (tl (reference_dumps gender_record))"
  define pre where "pre = ''Here is the entry:\<newline>''"
  have d: "reference_dumps gender_record = CHR ''{'' # body @ ''}''"
    unfolding body_def by (rule gender_dumped)
  have "CHR ''{'' \<notin> set pre" by (simp add: pre_def)
  then have "re_search pattern (pre @ CHR ''{'' # body @ CHR ''}'' # [])
      = Some (CHR ''{'' # body @ ''}'')"
    by (rule re_search_span) simp
  then have "re_search pattern (pre @ reference_dumps gender_record)
      = Some (reference_dumps gender_record)"
    by (simp add: d)
  then have "extract_json reference_runtime (pre @ reference_dumps gender_record)
      = Inr gender_record"
    by (simp add: extract_json_def gender_loaded reference_runtime_def)
  then show ?thesis
    unfolding gender_stripped pre_def .
qed

lemma gender_processed:
  "process_field reference_runtime employee_es ''employee_data''
     \<lparr>field_name = ''GenderCode'', data_type = ''keyword''\<rparr> describing_llm 20
     = Inr gender_record"
  "process_field reference_runtime employee_es ''employee_data''
     \<lparr>field_name = ''GenderCode'', data_type = ''keyword''\<rparr> timing_out_llm 20
     = Inr gender_record"
  using gender_answer prompts_differ(4)
  by (simp_all add: process_field_def gender_terms gender_samples describing_llm_def
        timing_out_llm_def gender_prompt_def [symmetric])


lemma department_fields:
  "get_fields employee_es ''department_data''
     = Inr [\<lparr>field_name = ''DeptName'', data_type = ''keyword''\<rparr>]"
  by (simp add: get_fields_def employee_es_def dict_get_def)

lemma deptname_terms:
  "get_diverse_terms employee_es ''department_data'' ''DeptName'' ''keyword'' threshold
     = Inr \<lparr>frequent_terms = [], rare_terms = [],
            significant_terms = [], unique_count = 0, sample_docs = []\<rparr>"
  by (simp add: get_diverse_terms_def employee_es_def diverse_terms_query_def agg_field_def
        term_buckets_def)

lemma department_prompts_differ:
  "generate_prompt ''department_data'' f t s \<noteq> gender_prompt"
  "generate_prompt ''department_data'' f t s \<noteq> division_prompt"
  by (simp_all add: gender_prompt_def division_prompt_def generate_prompt_def
        LLAMA3_BASE_PROMPT_def USER_PROMPT_TEMPLATE_def)

lemma division_processed:
  "process_field reference_runtime employee_es ''employee_data''
     \<lparr>field_name = ''Division'', data_type = ''text''\<rparr> describing_llm 20
     = Inr (fallback ''Division'' ''employee_data'' ''text'' ''I cannot describe this field.''
              [KeyStr ''Aerial'', KeyStr ''Splicing'', KeyStr ''Field Operations''])"
  using prompts_differ(1)
  by (simp add: process_field_def division_terms division_samples describing_llm_def
        strip_refusal refusal_no_json)

lemma division_times_out:
  "process_field reference_runtime employee_es ''employee_data''
     \<lparr>field_name = ''Division'', data_type = ''text''\<rparr> timing_out_llm 20
     = Inl (TransportError ''Read timed out'')"
  by (simp add: process_field_def division_terms division_samples timing_out_llm_def
        division_prompt_def)

lemma address_processed:
  "process_field reference_runtime employee_es ''employee_data''
     \<lparr>field_name = ''Address'', data_type = ''unknown''\<rparr> describing_llm 20
     = Inr (fallback ''Address'' ''employee_data'' ''unknown'' ''I cannot describe this field.'' [])"
  "process_field reference_runtime employee_es ''employee_data''
     \<lparr>field_name = ''Address'', data_type = ''unknown''\<rparr> timing_out_llm 20
     = Inr (fallback ''Address'' ''employee_data'' ''unknown'' ''I cannot describe this field.'' [])"
  using prompts_differ(2,3)
  by (simp_all add: process_field_def address_terms address_samples describing_llm_def
        timing_out_llm_def strip_refusal refusal_no_json)

lemma deptname_processed:
  "process_field reference_runtime employee_es ''department_data''
     \<lparr>field_name = ''DeptName'', data_type = ''keyword''\<rparr> describing_llm 20
     = Inr (fallback ''DeptName'' ''department_data'' ''keyword'' ''I cannot describe this field.'' [])"
  using department_prompts_differ
  by (simp add: process_field_def deptname_terms address_samples describing_llm_def
        strip_refusal refusal_no_json)

lemma reference_completion_time:
  "completion_time reference_runtime max_workers index field
     = (if max_workers = 1 then 0 else length field)"
  by (simp add: reference_runtime_def)

lemma employee_index_processed:
  "process_index reference_runtime employee_es ''employee_data'' describing_llm 20 log
     = (log @ [Submitted ''employee_data'' ''GenderCode'',
               Submitted ''employee_data'' ''Division'',
               Submitted ''employee_data'' ''Address'',
               Collected ''employee_data'' ''Address'',
               Collected ''employee_data'' ''Division'',
               Collected ''employee_data'' ''GenderCode'',
               Joined ''employee_data''],
        Inr [fallback ''Address'' ''employee_data'' ''unknown'' ''I cannot describe this field.'' [],
             fallback ''Division'' ''employee_data'' ''text'' ''I cannot describe this field.''
               [KeyStr ''Aerial'', KeyStr ''Splicing'', KeyStr ''Field Operations''],
             gender_record])"
  by (simp add: process_index_def process_index_pool_def employee_fields gender_processed
        division_processed address_processed as_completed_def reference_completion_time)

lemma employee_index_one_worker:
  "process_index_pool 1 reference_runtime employee_es ''employee_data'' describing_llm 20 log
     = (log @ [Submitted ''employee_data'' ''GenderCode'',
               Submitted ''employee_data'' ''Division'',
               Submitted ''employee_data'' ''Address'',
               Collected ''employee_data'' ''GenderCode'',
               Collected ''employee_data'' ''Division'',
               Collected ''employee_data'' ''Address'',
               Joined ''employee_data''],
        Inr [gender_record,
             fallback ''Division'' ''employee_data'' ''text'' ''I cannot describe this field.''
               [KeyStr ''Aerial'', KeyStr ''Splicing'', KeyStr ''Field Operations''],
             fallback ''Address'' ''employee_data'' ''unknown'' ''I cannot describe this field.'' []])"
  by (simp add: process_index_pool_def employee_fields gender_processed
        division_processed address_processed as_completed_def reference_completion_time)

lemma employee_index_times_out:
  "process_index reference_runtime employee_es ''employee_data'' timing_out_llm 20 log
     = (log @ [Submitted ''employee_data'' ''GenderCode'',
               Submitted ''employee_data'' ''Division'',
               Submitted ''employee_data'' ''Address'',
               Collected ''employee_data'' ''Address'',
               Joined ''employee_data''],
        Inl (TransportError ''Read timed out''))"
  by (simp add: process_index_def process_index_pool_def employee_fields gender_processed
        division_times_out address_processed as_completed_def reference_completion_time)

lemma department_index_processed:
  "process_index reference_runtime employee_es ''department_data'' describing_llm 20 log
     = (log @ [Submitted ''department_data'' ''DeptName'',
               Collected ''department_data'' ''DeptName'',
               Joined ''department_data''],
        Inr [fallback ''DeptName'' ''department_data'' ''keyword'' ''I cannot describe this field.'' []])"
  by (simp add: process_index_def process_index_pool_def department_fields deptname_processed
        as_completed_def reference_completion_time)
lemma employee_indices:
  "get_indices employee_es = Inr [''employee_data'', ''department_data'']"
  by (simp add: get_indices_def employee_es_def)

lemma depth_exceeds_open:
  "limit < d + n \<Longrightarrow> 0 < n \<Longrightarrow> depth_exceeds limit d (replicate n CHR ''['' @ rest)"
proof (induction n arbitrary: d)
  case 0
  then show ?case by simp
next
  case (Suc n)
  show ?case
  proof (cases "n = 0")
    case True
    then show ?thesis using Suc.prems by simp
  next
    case False
    then have "depth_exceeds limit (Suc d) (replicate n CHR ''['' @ rest)"
      using Suc.IH [of "Suc d"] Suc.prems by simp
    then show ?thesis by simp
  qed
qed

lemma nested_text_braces:
  "nested_text
     = CHR ''{'' # (dq @ ''a'' @ dq @ '':'' @ replicate 995 CHR ''['' @ replicate 995 CHR '']'')
         @ ''}''"
  by (simp add: nested_text_def)

lemma nested_text_loads:
  "reference_loads nested_text = Inl (RecursionError ''maximum recursion depth exceeded'')"
proof -
  define rest where "rest = replicate 995 CHR '']'' @ ''}''"
  have "depth_exceeds 990 (Suc 0) (replicate 995 CHR ''['' @ rest)"
    by (rule depth_exceeds_open) simp_all
  then have "depth_exceeds 990 0
      (CHR ''{'' # CHR 0x22 # CHR ''a'' # CHR 0x22 # CHR '':'' # replicate 995 CHR ''['' @ rest)"
    by simp
  then have "depth_exceeds 990 0 nested_text"
    by (simp add: nested_text_def dq_def rest_def)
  then show ?thesis by (simp add: reference_loads_def)
qed

lemma nested_text_span: "re_search pattern nested_text = Some nested_text"
proof -
  have "re_search pattern
      ([] @ CHR ''{'' # (dq @ ''a'' @ dq @ '':'' @ replicate 995 CHR ''['' @ replicate 995 CHR '']'')
         @ CHR ''}'' # [])
      = Some (CHR ''{'' # (dq @ ''a'' @ dq @ '':'' @ replicate 995 CHR ''['' @ replicate 995 CHR '']'')
         @ ''}'')"
    by (rule re_search_span) simp_all
  then show ?thesis by (simp add: nested_text_braces)
qed

lemma dumped_stripped:
  "strip (reference_dumps gender_record) = reference_dumps gender_record"
  by code_simp

lemma gender_extracted:
  "extract_json reference_runtime (reference_dumps gender_record) = Inr gender_record"
proof -
  define body where "body = butlast (tl (reference_dumps gender_record))"
  have d: "reference_dumps gender_record = CHR ''{'' # body @ ''}''"
    unfolding body_def by (rule gender_dumped)
  have "re_search pattern ([] @ CHR ''{'' # body @ CHR ''}'' # []) = Some (CHR ''{'' # body @ ''}'')"
    by (rule re_search_span) simp_all
  then have "re_search pattern (reference_dumps gender_record)
      = Some (reference_dumps gender_record)"
    by (simp add: d)
  then show ?thesis
    by (simp add: extract_json_def gender_loaded reference_runtime_def)
qed

lemma repeated_processed:
  "process_field reference_runtime employee_es ''employee_data''
     \<lparr>field_name = ''GenderCode'', data_type = ''keyword''\<rparr> repeating_llm 20
     = Inr gender_record"
  "process_field reference_runtime employee_es ''employee_data''
     \<lparr>field_name = ''Division'', data_type = ''text''\<rparr> repeating_llm 20
     = Inr gender_record"
  "process_field reference_runtime employee_es ''employee_data''
     \<lparr>field_name = ''Address'', data_type = ''unknown''\<rparr> repeating_llm 20
     = Inr gender_record"
  by (simp_all add: process_field_def gender_terms division_terms address_terms
        repeating_llm_def dumped_stripped gender_extracted)

lemma employee_index_repeated:
  "snd (process_index_pool 1 reference_runtime employee_es ''employee_data'' repeating_llm 20 [])
     = Inr [gender_record, gender_record, gender_record]"
  "snd (process_index_pool 10 reference_runtime employee_es ''employee_data'' repeating_llm 20 [])
     = Inr [gender_record, gender_record, gender_record]"
  by (simp_all add: process_index_pool_def employee_fields repeated_processed as_completed_def
        reference_completion_time)

section \<open>The properties\<close>

subsection \<open>One record per field\<close>



subsection \<open>The outcomes of the extraction\<close>

text \<open>
  Claim C2, as the code has it. When the text has an opening brace and a closing brace
  after it, the span from the first opening brace to the last closing brace is given to
  \<^verbatim>\<open>json.loads\<close>: a parsed value is returned as it is; a \<^verbatim>\<open>JSONDecodeError\<close> becomes
  a \<^verbatim>\<open>ValueError\<close> that names the parse failure; any other exception of
  \<^verbatim>\<open>json.loads\<close> leaves \<^verbatim>\<open>extract_json\<close> as it is. When the text has no such span,
  the \<^verbatim>\<open>ValueError\<close> says that no JSON object was found. Every text is of one of the
  two kinds.
\<close>

theorem extract_json_outcomes:
  "(\<forall>pre body post obj.
       text = pre @ CHR ''{'' # body @ CHR ''}'' # post
       \<and> CHR ''{'' \<notin> set pre \<and> CHR ''}'' \<notin> set post
       \<and> json_loads rt (CHR ''{'' # body @ ''}'') = Inr obj
       \<longrightarrow> extract_json rt text = Inr obj)
   \<and> (\<forall>pre body post e.
       text = pre @ CHR ''{'' # body @ CHR ''}'' # post
       \<and> CHR ''{'' \<notin> set pre \<and> CHR ''}'' \<notin> set post
       \<and> json_loads rt (CHR ''{'' # body @ ''}'') = Inl (JSONDecodeError e)
       \<longrightarrow> extract_json rt text = Inl (ValueError (''Error parsing JSON: '' @ e)))
   \<and> (\<forall>pre body post other.
       text = pre @ CHR ''{'' # body @ CHR ''}'' # post
       \<and> CHR ''{'' \<notin> set pre \<and> CHR ''}'' \<notin> set post
       \<and> json_loads rt (CHR ''{'' # body @ ''}'') = Inl other
       \<and> (\<forall>e. other \<noteq> JSONDecodeError e)
       \<longrightarrow> extract_json rt text = Inl other)
   \<and> ((\<nexists>pre body post. text = pre @ CHR ''{'' # body @ CHR ''}'' # post)
       \<longrightarrow> extract_json rt text = Inl (ValueError ''No JSON object found in the text.''))
   \<and> ((\<exists>pre body post. text = pre @ CHR ''{'' # body @ CHR ''}'' # post
           \<and> CHR ''{'' \<notin> set pre \<and> CHR ''}'' \<notin> set post)
       \<or> (\<nexists>pre body post. text = pre @ CHR ''{'' # body @ CHR ''}'' # post))"
proof (intro conjI allI impI)
  fix pre body post obj
  assume "text = pre @ CHR ''{'' # body @ CHR ''}'' # post
       \<and> CHR ''{'' \<notin> set pre \<and> CHR ''}'' \<notin> set post
       \<and> json_loads rt (CHR ''{'' # body @ ''}'') = Inr obj"
  then show "extract_json rt text = Inr obj"
    by (simp add: extract_json_def re_search_span)
next
  fix pre body post e
  assume "text = pre @ CHR ''{'' # body @ CHR ''}'' # post
       \<and> CHR ''{'' \<notin> set pre \<and> CHR ''}'' \<notin> set post
       \<and> json_loads rt (CHR ''{'' # body @ ''}'') = Inl (JSONDecodeError e)"
  then show "extract_json rt text = Inl (ValueError (''Error parsing JSON: '' @ e))"
    by (simp add: extract_json_def re_search_span)
next
  fix pre body post other
  assume a: "text = pre @ CHR ''{'' # body @ CHR ''}'' # post
       \<and> CHR ''{'' \<notin> set pre \<and> CHR ''}'' \<notin> set post
       \<and> json_loads rt (CHR ''{'' # body @ ''}'') = Inl other
       \<and> (\<forall>e. other \<noteq> JSONDecodeError e)"
  then have "re_search pattern text = Some (CHR ''{'' # body @ ''}'')"
    by (simp add: re_search_span)
  then have "extract_json rt text
      = (case other of JSONDecodeError e \<Rightarrow> Inl (ValueError (''Error parsing JSON: '' @ e))
         | _ \<Rightarrow> Inl other)"
    using a by (simp add: extract_json_span split: error.split)
  then show "extract_json rt text = Inl other"
    using a by (cases other) simp_all
next
  assume "\<nexists>pre body post. text = pre @ CHR ''{'' # body @ CHR ''}'' # post"
  then show "extract_json rt text = Inl (ValueError ''No JSON object found in the text.'')"
    by (simp add: extract_json_def re_search_no_span)
next
  show "(\<exists>pre body post. text = pre @ CHR ''{'' # body @ CHR ''}'' # post
           \<and> CHR ''{'' \<notin> set pre \<and> CHR ''}'' \<notin> set post)
       \<or> (\<nexists>pre body post. text = pre @ CHR ''{'' # body @ CHR ''}'' # post)"
    using span_exists_first_last by blast
qed

theorem extract_json_outcomes_witness:
  "extract_json reference_runtime (''Sure: {'' @ dq @ ''a'' @ dq @ '': 1} done'')
     = Inr (JObj [(''a'', JInt 1)])
   \<and> extract_json reference_runtime ''see {nope} and }''
       = Inl (ValueError ''Error parsing JSON: Expecting value'')
   \<and> extract_json reference_runtime nested_text
       = Inl (RecursionError ''maximum recursion depth exceeded'')
   \<and> extract_json reference_runtime ''} no object {''
       = Inl (ValueError ''No JSON object found in the text.'')"
proof (intro conjI)
  have l: "json_loads reference_runtime (CHR ''{'' # (dq @ ''a'' @ dq @ '': 1'') @ ''}'')
      = Inr (JObj [(''a'', JInt 1)])"
    unfolding reference_runtime_def by code_simp
  have "''Sure: {'' @ dq @ ''a'' @ dq @ '': 1} done''
      = ''Sure: '' @ CHR ''{'' # (dq @ ''a'' @ dq @ '': 1'') @ CHR ''}'' # '' done''
    \<and> CHR ''{'' \<notin> set ''Sure: '' \<and> CHR ''}'' \<notin> set '' done''
    \<and> json_loads reference_runtime (CHR ''{'' # (dq @ ''a'' @ dq @ '': 1'') @ ''}'')
      = Inr (JObj [(''a'', JInt 1)])"
    using l by simp
  with extract_json_outcomes
         [of "''Sure: {'' @ dq @ ''a'' @ dq @ '': 1} done''" reference_runtime]
  show "extract_json reference_runtime (''Sure: {'' @ dq @ ''a'' @ dq @ '': 1} done'')
        = Inr (JObj [(''a'', JInt 1)])"
    by blast
next
  have l: "json_loads reference_runtime (CHR ''{'' # ''nope} and '' @ ''}'')
      = Inl (JSONDecodeError ''Expecting value'')"
    unfolding reference_runtime_def by code_simp
  have "''see {nope} and }'' = ''see '' @ CHR ''{'' # ''nope} and '' @ CHR ''}'' # []
    \<and> CHR ''{'' \<notin> set ''see '' \<and> CHR ''}'' \<notin> set []
    \<and> json_loads reference_runtime (CHR ''{'' # ''nope} and '' @ ''}'')
      = Inl (JSONDecodeError ''Expecting value'')"
    using l by simp
  with extract_json_outcomes [of "''see {nope} and }''" reference_runtime]
  have "extract_json reference_runtime ''see {nope} and }''
      = Inl (ValueError (''Error parsing JSON: '' @ ''Expecting value''))"
    by blast
  then show "extract_json reference_runtime ''see {nope} and }''
      = Inl (ValueError ''Error parsing JSON: Expecting value'')"
    by simp
next
  define body where
    "body = dq @ ''a'' @ dq @ '':'' @ replicate 995 CHR ''['' @ replicate 995 CHR '']''"
  have "json_loads reference_runtime nested_text
      = Inl (RecursionError ''maximum recursion depth exceeded'')"
    by (simp add: reference_runtime_def nested_text_loads)
  then have "nested_text = [] @ CHR ''{'' # body @ CHR ''}'' # []
    \<and> CHR ''{'' \<notin> set [] \<and> CHR ''}'' \<notin> set []
    \<and> json_loads reference_runtime (CHR ''{'' # body @ ''}'')
      = Inl (RecursionError ''maximum recursion depth exceeded'')
    \<and> (\<forall>e. RecursionError ''maximum recursion depth exceeded'' \<noteq> JSONDecodeError e)"
    by (simp add: nested_text_braces body_def)
  with extract_json_outcomes [of nested_text reference_runtime]
  show "extract_json reference_runtime nested_text
      = Inl (RecursionError ''maximum recursion depth exceeded'')"
    by blast
next
  have "\<nexists>pre body post. ''} no object {'' = pre @ CHR ''{'' # body @ CHR ''}'' # post"
  proof
    assume "\<exists>pre body post. ''} no object {'' = pre @ CHR ''{'' # body @ CHR ''}'' # post"
    then obtain pre body post
      where e: "''} no object {'' = pre @ CHR ''{'' # body @ CHR ''}'' # post" by blast
    have "last ''} no object {'' = last (pre @ CHR ''{'' # body @ CHR ''}'' # post)"
      using e by simp
    then have "post \<noteq> [] \<and> last post = CHR ''{''" by (cases "post = []") simp_all
    then have "CHR ''{'' \<in> set post" using last_in_set by metis
    moreover have "count_list ''} no object {'' CHR ''{'' = 1" by simp
    moreover have "count_list (pre @ CHR ''{'' # body @ CHR ''}'' # post) CHR ''{''
        \<ge> 1 + count_list post CHR ''{''" by simp
    ultimately show False using e by (metis count_list_0_iff add_le_same_cancel1 le_zero_eq)
  qed
  with extract_json_outcomes [of "''} no object {''" reference_runtime]
  show "extract_json reference_runtime ''} no object {''
      = Inl (ValueError ''No JSON object found in the text.'')"
    by blast
qed

text \<open>
  On an object that holds 995 arrays, one in the other, the pattern matches the whole
  text and \<^verbatim>\<open>json.loads\<close> raises a \<^verbatim>\<open>RecursionError\<close>, which
  \<^verbatim>\<open>except json.JSONDecodeError\<close> does not catch: the outcome is neither a parsed
  object nor a \<^verbatim>\<open>ValueError\<close>.
\<close>

theorem nested_text_raises_recursion_error:
  "re_search pattern nested_text = Some nested_text
   \<and> json_loads reference_runtime nested_text
       = Inl (RecursionError ''maximum recursion depth exceeded'')
   \<and> extract_json reference_runtime nested_text
       = Inl (RecursionError ''maximum recursion depth exceeded'')
   \<and> \<not> is_ValueError (RecursionError ''maximum recursion depth exceeded'')"
  by (simp add: extract_json_def nested_text_span reference_runtime_def nested_text_loads)

subsection \<open>The fallback record\<close>

text \<open>
  Claim C3. When the extraction from the stripped generation text raises a
  \<^verbatim>\<open>ValueError\<close>, in particular when the text has no opening or no closing brace,
  \<^verbatim>\<open>process_field\<close> returns the record built from its inputs: the field, the index,
  the data type, the stripped text as the description, and the first of the
  deduplicated samples, or the empty string where there is none. The error does not
  leave \<^verbatim>\<open>process_field\<close>.
\<close>

theorem process_field_fallback:
  assumes "get_diverse_terms es index (field_name field_info) (data_type field_info) threshold
             = Inr terms"
    and "generate_text llm_client
           (generate_prompt index (field_name field_info) (data_type field_info)
              (combined_samples rt terms threshold)) = Inr raw"
    and "(\<exists>e. extract_json rt (strip raw) = Inl e \<and> is_ValueError e)
         \<or> CHR ''{'' \<notin> set raw \<or> CHR ''}'' \<notin> set raw"
  shows "process_field rt es index field_info llm_client threshold
           = Inr (JObj [(''field_name'', JStr (field_name field_info)),
                        (''index_name'', JStr index),
                        (''data_type'', JStr (data_type field_info)),
                        (''natural_language_description'', JStr (strip raw)),
                        (''sample_value'',
                           (case combined_samples rt terms threshold of
                              [] \<Rightarrow> JStr ''''
                            | s # ss \<Rightarrow> json_of_key s))])"
proof -
  have "\<exists>e. extract_json rt (strip raw) = Inl e \<and> is_ValueError e"
  proof (cases "\<exists>e. extract_json rt (strip raw) = Inl e \<and> is_ValueError e")
    case True
    then show ?thesis .
  next
    case False
    then have "CHR ''{'' \<notin> set (strip raw) \<or> CHR ''}'' \<notin> set (strip raw)"
      using assms(3) set_strip [of raw] by auto
    then have "extract_json rt (strip raw)
        = Inl (ValueError ''No JSON object found in the text.'')"
      by (rule extract_json_no_braces)
    then show ?thesis by simp
  qed
  then obtain e where "extract_json rt (strip raw) = Inl e" "is_ValueError e" by blast
  then show ?thesis
    using assms(1,2) by (simp add: process_field_def Let_def fallback_def)
qed

theorem process_field_fallback_witness:
  "process_field reference_runtime employee_es ''employee_data''
     \<lparr>field_name = ''Division'', data_type = ''text''\<rparr> describing_llm 20
     = Inr (JObj [(''field_name'', JStr ''Division''),
                  (''index_name'', JStr ''employee_data''),
                  (''data_type'', JStr ''text''),
                  (''natural_language_description'', JStr ''I cannot describe this field.''),
                  (''sample_value'', JStr ''Aerial'')])"
proof -
  have g: "generate_text describing_llm
      (generate_prompt ''employee_data''
         (field_name \<lparr>field_name = ''Division'', data_type = ''text''\<rparr>)
         (data_type \<lparr>field_name = ''Division'', data_type = ''text''\<rparr>)
         (combined_samples reference_runtime
            \<lparr>frequent_terms = [KeyStr ''Field Operations'', KeyStr ''Aerial'', KeyStr ''Field Operations''],
             rare_terms = [KeyStr ''Splicing''],
             significant_terms = [KeyStr ''Aerial''], unique_count = 3, sample_docs = []\<rparr> 20))
      = Inr ''  I cannot describe this field.\<newline>''"
    using prompts_differ(1) by (simp add: describing_llm_def)
  have t: "get_diverse_terms employee_es ''employee_data''
      (field_name \<lparr>field_name = ''Division'', data_type = ''text''\<rparr>)
      (data_type \<lparr>field_name = ''Division'', data_type = ''text''\<rparr>) 20
      = Inr \<lparr>frequent_terms = [KeyStr ''Field Operations'', KeyStr ''Aerial'', KeyStr ''Field Operations''],
             rare_terms = [KeyStr ''Splicing''],
             significant_terms = [KeyStr ''Aerial''], unique_count = 3, sample_docs = []\<rparr>"
    by (simp add: division_terms)
  have b: "(\<exists>e. extract_json reference_runtime (strip ''  I cannot describe this field.\<newline>'')
              = Inl e \<and> is_ValueError e)
      \<or> CHR ''{'' \<notin> set ''  I cannot describe this field.\<newline>''
      \<or> CHR ''}'' \<notin> set ''  I cannot describe this field.\<newline>''"
    by simp
  show ?thesis
    using process_field_fallback [OF t g b]
    by (simp add: division_samples strip_refusal)
qed

subsection \<open>Deduplicated and truncated samples\<close>



subsection \<open>The aggregation target\<close>

text \<open>
  Claim C5, as the code has it. The target is the field name with \<^verbatim>\<open>.keyword\<close>
  appended for the type \<^verbatim>\<open>text\<close> and the field name for every other type. The one
  query that \<^verbatim>\<open>get_diverse_terms\<close> issues has five aggregations; the four of terms
  and cardinality are computed on the target, and \<^verbatim>\<open>sample_docs\<close>, a \<^verbatim>\<open>top_hits\<close>
  of size 3, names no field.
\<close>

theorem aggregation_targets:
  "agg_field f ''text'' = f @ ''.keyword''
   \<and> (t \<noteq> ''text'' \<longrightarrow> agg_field f t = f)
   \<and> map (\<lambda>(name, agg). (name, aggregation_field agg)) (diverse_terms_query f t sz)
       = [(''frequent_terms'', Some (agg_field f t)),
          (''rare_terms'', Some (agg_field f t)),
          (''significant_terms'', Some (agg_field f t)),
          (''unique_count'', Some (agg_field f t)),
          (''sample_docs'', None)]
   \<and> get_diverse_terms es index f t sz
       = map_sum id
           (\<lambda>response.
              \<lparr>frequent_terms = map bucket_key (frequent_terms_buckets response),
               rare_terms = map bucket_key (rare_terms_buckets response),
               significant_terms = map bucket_key (significant_terms_buckets response),
               unique_count = unique_count_value response,
               sample_docs = sample_docs_hits response\<rparr>)
           (es_search es index (diverse_terms_query f t sz))"
  by (simp add: agg_field_def diverse_terms_query_def get_diverse_terms_def split: sum.split)

theorem aggregation_targets_witness:
  "''keyword'' \<noteq> ''text''
   \<and> agg_field ''Division'' ''text'' = ''Division.keyword''
   \<and> agg_field ''Division'' ''keyword'' = ''Division''
   \<and> map (\<lambda>(name, agg). (name, aggregation_field agg))
         (diverse_terms_query ''Division'' ''keyword'' 10)
       = [(''frequent_terms'', Some ''Division''),
          (''rare_terms'', Some ''Division''),
          (''significant_terms'', Some ''Division''),
          (''unique_count'', Some ''Division''),
          (''sample_docs'', None)]"
proof -
  have h: "''keyword'' \<noteq> ''text''" by simp
  show ?thesis
    using h aggregation_targets [of "''Division''" "''keyword''" 10]
    by simp
qed

text \<open>
  The fifth aggregation of the query for the text field \<^verbatim>\<open>Division\<close> has no target,
  so not all five aggregations use \<^verbatim>\<open>Division.keyword\<close>.
\<close>

theorem sample_docs_has_no_target:
  "agg_field ''Division'' ''text'' = ''Division.keyword''
   \<and> map_of (diverse_terms_query ''Division'' ''text'' 10) ''sample_docs'' = Some (TopHits 3)
   \<and> aggregation_field (TopHits 3) = None
   \<and> \<not> list_all (\<lambda>(name, agg). aggregation_field agg = Some (agg_field ''Division'' ''text''))
          (diverse_terms_query ''Division'' ''text'' 10)"
  by (simp add: agg_field_def diverse_terms_query_def)

subsection \<open>A unit of work that fails\<close>

text \<open>
  Claim C6, as the code has it. When the unit of work of some field raises,
  \<^verbatim>\<open>future.result()\<close> raises the error again in the coordinating thread:
  \<^verbatim>\<open>process_index\<close> returns no collection and raises the error of a failing unit,
  namely of the first failing future that \<^verbatim>\<open>as_completed\<close> yields, whatever the
  futures before it returned. Every field was submitted once, so no unit is tried
  again. Where the indices before this one return, \<^verbatim>\<open>generate_metadata_dictionary\<close>
  ends with the same error.
\<close>

theorem process_index_propagates_unit_failure:
  assumes "get_fields es index = Inr fields_info"
    and "\<exists>field_info \<in> set fields_info.
           isl (process_field rt es index field_info llm_client threshold)"
  shows "\<exists>e. snd (process_index rt es index llm_client threshold log) = Inl e
           \<and> (\<exists>field_info \<in> set fields_info.
                 process_field rt es index field_info llm_client threshold = Inl e)
           \<and> (\<exists>before field after.
                 as_completed rt 10 index
                   (map (\<lambda>field_info. (field_name field_info,
                           process_field rt es index field_info llm_client threshold))
                        fields_info)
                   = before @ (field, Inl e) # after
                 \<and> (\<forall>future \<in> set before. \<not> isl (snd future)))
           \<and> submissions (fst (process_index rt es index llm_client threshold []))
               = map (\<lambda>field_info. (index, field_name field_info)) fields_info
           \<and> (\<forall>indices_before indices_after.
                 get_indices es = Inr (indices_before @ index # indices_after)
                 \<and> (\<forall>earlier \<in> set indices_before.
                       \<not> isl (snd (process_index rt es earlier llm_client threshold [])))
                 \<longrightarrow> snd (generate_metadata_dictionary rt es llm_client threshold log)
                       = Inl e)"
proof -
  let ?futures = "map (\<lambda>field_info. (field_name field_info,
      process_field rt es index field_info llm_client threshold)) fields_info"
  obtain e before field after where first:
      "as_completed rt 10 index ?futures = before @ (field, Inl e) # after"
      "\<forall>future \<in> set before. \<not> isl (snd future)"
      "snd (process_index_pool 10 rt es index llm_client threshold log) = Inl e"
    using process_index_pool_first_failure [OF assms, of 10 log] by blast
  have raised: "snd (process_index rt es index llm_client threshold log') = Inl e" for log'
    using first(3)
      process_index_pool_log_independent [of 10 rt es index llm_client threshold log]
      process_index_pool_log_independent [of 10 rt es index llm_client threshold log']
    by (simp add: process_index_def)
  have "(field, Inl e) \<in> set (as_completed rt 10 index ?futures)"
    using first(1) by simp
  then have "(field, Inl e) \<in> set ?futures" by (simp only: set_as_completed)
  then have unit: "\<exists>field_info \<in> set fields_info.
      process_field rt es index field_info llm_client threshold = Inl e"
    by auto
  have once: "submissions (fst (process_index rt es index llm_client threshold []))
      = map (\<lambda>field_info. (index, field_name field_info)) fields_info"
    by (simp add: process_index_def process_index_submissions [OF assms(1)])
  have run: "snd (generate_metadata_dictionary rt es llm_client threshold log) = Inl e"
    if "get_indices es = Inr (indices_before @ index # indices_after)"
      and "\<forall>earlier \<in> set indices_before.
             \<not> isl (snd (process_index rt es earlier llm_client threshold []))"
    for indices_before indices_after
    using that(1) extend_all_first_failure [OF that(2) raised [of "[]"], of indices_after "[]" log]
    by (simp add: generate_metadata_dictionary_def)
  show ?thesis
    using raised [of log] unit first(1,2) once run by blast
qed

theorem process_index_propagates_unit_failure_witness:
  "snd (process_index reference_runtime employee_es ''employee_data'' timing_out_llm 20 [])
     = Inl (TransportError ''Read timed out'')
   \<and> submissions (fst (process_index reference_runtime employee_es ''employee_data''
                          timing_out_llm 20 []))
       = [(''employee_data'', ''GenderCode''), (''employee_data'', ''Division''),
          (''employee_data'', ''Address'')]
   \<and> get_indices employee_es = Inr ([] @ ''employee_data'' # [''department_data''])
   \<and> snd (generate_metadata_dictionary reference_runtime employee_es timing_out_llm 20 [])
       = Inl (TransportError ''Read timed out'')"
proof -
  have failing: "\<exists>field_info \<in> set [\<lparr>field_name = ''GenderCode'', data_type = ''keyword''\<rparr>,
            \<lparr>field_name = ''Division'', data_type = ''text''\<rparr>,
            \<lparr>field_name = ''Address'', data_type = ''unknown''\<rparr>].
      isl (process_field reference_runtime employee_es ''employee_data'' field_info
             timing_out_llm 20)"
    by (simp add: division_times_out)
  have indices: "get_indices employee_es = Inr ([] @ ''employee_data'' # [''department_data''])"
    by (simp add: employee_indices)
  have earlier: "\<forall>earlier \<in> set [].
      \<not> isl (snd (process_index reference_runtime employee_es earlier timing_out_llm 20 []))"
    by simp
  obtain e where e:
      "snd (process_index reference_runtime employee_es ''employee_data'' timing_out_llm 20 [])
         = Inl e"
      "\<exists>field_info \<in> set [\<lparr>field_name = ''GenderCode'', data_type = ''keyword''\<rparr>,
            \<lparr>field_name = ''Division'', data_type = ''text''\<rparr>,
            \<lparr>field_name = ''Address'', data_type = ''unknown''\<rparr>].
         process_field reference_runtime employee_es ''employee_data'' field_info
           timing_out_llm 20 = Inl e"
      "submissions (fst (process_index reference_runtime employee_es ''employee_data''
                          timing_out_llm 20 []))
         = map (\<lambda>field_info. (''employee_data'', field_name field_info))
             [\<lparr>field_name = ''GenderCode'', data_type = ''keyword''\<rparr>,
              \<lparr>field_name = ''Division'', data_type = ''text''\<rparr>,
              \<lparr>field_name = ''Address'', data_type = ''unknown''\<rparr>]"
      "\<forall>indices_before indices_after.
         get_indices employee_es = Inr (indices_before @ ''employee_data'' # indices_after)
         \<and> (\<forall>earlier \<in> set indices_before.
               \<not> isl (snd (process_index reference_runtime employee_es earlier
                              timing_out_llm 20 [])))
         \<longrightarrow> snd (generate_metadata_dictionary reference_runtime employee_es
                    timing_out_llm 20 []) = Inl e"
    using process_index_propagates_unit_failure [OF employee_fields failing, of "[]"]
    by blast
  have "e = TransportError ''Read timed out''"
    using e(2) by (auto simp: gender_processed division_times_out address_processed)
  moreover have "snd (generate_metadata_dictionary reference_runtime employee_es
      timing_out_llm 20 []) = Inl e"
    using e(4) indices earlier by blast
  ultimately show ?thesis using e(1,3) indices by simp
qed

text \<open>
  With a generation service that times out on the field \<^verbatim>\<open>Division\<close>, the unit of
  \<^verbatim>\<open>GenderCode\<close> returns its record, and yet the index and the whole run end with the
  transport error and return no record.
\<close>

theorem unit_failure_aborts_index:
  "process_field reference_runtime employee_es ''employee_data''
     \<lparr>field_name = ''GenderCode'', data_type = ''keyword''\<rparr> timing_out_llm 20
     = Inr gender_record
   \<and> process_field reference_runtime employee_es ''employee_data''
       \<lparr>field_name = ''Division'', data_type = ''text''\<rparr> timing_out_llm 20
       = Inl (TransportError ''Read timed out'')
   \<and> snd (process_index reference_runtime employee_es ''employee_data'' timing_out_llm 20 [])
       = Inl (TransportError ''Read timed out'')
   \<and> snd (generate_metadata_dictionary reference_runtime employee_es timing_out_llm 20 [])
       = Inl (TransportError ''Read timed out'')"
  by (simp add: gender_processed division_times_out employee_index_times_out
        generate_metadata_dictionary_def employee_indices)

subsection \<open>The size of the pool\<close>

text \<open>
  Claim C7, as the code has it. The source fixes the pool at ten workers; with the size
  as a parameter and the same services and responses, fan-outs over pools of any two
  sizes, one and ten among them, both fail or both return, and when they return the
  two collections hold the same records and the same keys
  (\<^verbatim>\<open>field_name\<close>, \<^verbatim>\<open>index_name\<close>), each as often in one as in the other: a key is
  missing or duplicated in one run exactly when it is in the other. Whether a key is
  duplicated at all depends on the generation service, whose parsed records are not
  checked against the field: where the field names are distinct and every record
  carries the name of its field and of the index, the keys of a run are the keys of
  the fields of the index, each once.
\<close>

theorem fan_out_pool_size_independent:
  "(isl (snd (process_index_pool w rt es index llm_client threshold log))
      = isl (snd (process_index_pool w' rt es index llm_client threshold log')))
   \<and> (\<forall>m m'.
         snd (process_index_pool w rt es index llm_client threshold log) = Inr m
         \<and> snd (process_index_pool w' rt es index llm_client threshold log') = Inr m'
         \<longrightarrow> mset m = mset m'
             \<and> mset (map record_key m) = mset (map record_key m')
             \<and> distinct (map record_key m) = distinct (map record_key m'))
   \<and> (\<forall>fields_info metadata.
         get_fields es index = Inr fields_info
         \<and> distinct (map field_name fields_info)
         \<and> (\<forall>field_info \<in> set fields_info.
               \<exists>result. process_field rt es index field_info llm_client threshold = Inr result
                 \<and> record_key result
                     = (Some (JStr (field_name field_info)), Some (JStr index)))
         \<and> snd (process_index_pool w rt es index llm_client threshold log) = Inr metadata
         \<longrightarrow> distinct (map record_key metadata)
             \<and> mset (map record_key metadata)
                 = mset (map (\<lambda>field_info.
                               (Some (JStr (field_name field_info)), Some (JStr index)))
                             fields_info))"
proof (intro conjI)
  show "\<forall>fields_info metadata.
         get_fields es index = Inr fields_info
         \<and> distinct (map field_name fields_info)
         \<and> (\<forall>field_info \<in> set fields_info.
               \<exists>result. process_field rt es index field_info llm_client threshold = Inr result
                 \<and> record_key result
                     = (Some (JStr (field_name field_info)), Some (JStr index)))
         \<and> snd (process_index_pool w rt es index llm_client threshold log) = Inr metadata
         \<longrightarrow> distinct (map record_key metadata)
             \<and> mset (map record_key metadata)
                 = mset (map (\<lambda>field_info.
                               (Some (JStr (field_name field_info)), Some (JStr index)))
                             fields_info)"
    using echoed_keys [of es index _ rt llm_client threshold w log] by blast
next
  have both: "(isl (snd (process_index_pool w rt es index llm_client threshold log))
      = isl (snd (process_index_pool w' rt es index llm_client threshold log')))
   \<and> (\<forall>m m'.
         snd (process_index_pool w rt es index llm_client threshold log) = Inr m
         \<and> snd (process_index_pool w' rt es index llm_client threshold log') = Inr m'
         \<longrightarrow> mset m = mset m'
             \<and> mset (map record_key m) = mset (map record_key m')
             \<and> distinct (map record_key m) = distinct (map record_key m'))"
  proof (cases "get_fields es index")
    case (Inl e)
    then show ?thesis by (simp add: process_index_pool_fails)
  next
    case (Inr fields_info)
    have keys: "mset (map record_key m) = mset (map record_key m')
        \<and> distinct (map record_key m) = distinct (map record_key m')"
      if "mset m = mset m'" for m m' :: "json list"
    proof -
      have "mset (map record_key m) = mset (map record_key m')"
        using that by (metis mset_map)
      then show ?thesis by (metis mset_eq_imp_distinct_iff)
    qed
    show ?thesis
    proof (cases "\<forall>field_info \<in> set fields_info.
        \<not> isl (process_field rt es index field_info llm_client threshold)")
      case True
      obtain a where a: "snd (process_index_pool w rt es index llm_client threshold log) = Inr a"
        "mset a = mset (map (\<lambda>field_info.
            projr (process_field rt es index field_info llm_client threshold)) fields_info)"
        using process_index_pool_all_ok [OF Inr True, of w log] by blast
      obtain b where b: "snd (process_index_pool w' rt es index llm_client threshold log') = Inr b"
        "mset b = mset (map (\<lambda>field_info.
            projr (process_field rt es index field_info llm_client threshold)) fields_info)"
        using process_index_pool_all_ok [OF Inr True, of w' log'] by blast
      have "mset a = mset b" using a(2) b(2) by simp
      then show ?thesis using a(1) b(1) keys [of a b] by simp
    next
      case False
      then have f: "\<exists>field_info \<in> set fields_info.
          isl (process_field rt es index field_info llm_client threshold)" by blast
      obtain e where "snd (process_index_pool w rt es index llm_client threshold log) = Inl e"
        using process_index_pool_some_failure [OF Inr f, of w log] by blast
      moreover obtain e' where
          "snd (process_index_pool w' rt es index llm_client threshold log') = Inl e'"
        using process_index_pool_some_failure [OF Inr f, of w' log'] by blast
      ultimately show ?thesis by simp
    qed
  qed
  then show "isl (snd (process_index_pool w rt es index llm_client threshold log))
      = isl (snd (process_index_pool w' rt es index llm_client threshold log'))" by blast
  from both show "\<forall>m m'.
         snd (process_index_pool w rt es index llm_client threshold log) = Inr m
         \<and> snd (process_index_pool w' rt es index llm_client threshold log') = Inr m'
         \<longrightarrow> mset m = mset m'
             \<and> mset (map record_key m) = mset (map record_key m')
             \<and> distinct (map record_key m) = distinct (map record_key m')" by blast
qed

theorem fan_out_pool_size_independent_witness:
  "snd (process_index_pool 1 reference_runtime employee_es ''employee_data'' describing_llm 20 [])
     = Inr [gender_record,
            fallback ''Division'' ''employee_data'' ''text'' ''I cannot describe this field.''
              [KeyStr ''Aerial'', KeyStr ''Splicing'', KeyStr ''Field Operations''],
            fallback ''Address'' ''employee_data'' ''unknown'' ''I cannot describe this field.'' []]
   \<and> snd (process_index_pool 10 reference_runtime employee_es ''employee_data''
            describing_llm 20 [])
     = Inr [fallback ''Address'' ''employee_data'' ''unknown'' ''I cannot describe this field.'' [],
            fallback ''Division'' ''employee_data'' ''text'' ''I cannot describe this field.''
              [KeyStr ''Aerial'', KeyStr ''Splicing'', KeyStr ''Field Operations''],
            gender_record]
   \<and> mset (map record_key
         [gender_record,
          fallback ''Division'' ''employee_data'' ''text'' ''I cannot describe this field.''
            [KeyStr ''Aerial'', KeyStr ''Splicing'', KeyStr ''Field Operations''],
          fallback ''Address'' ''employee_data'' ''unknown'' ''I cannot describe this field.'' []])
     = mset (map record_key
         [fallback ''Address'' ''employee_data'' ''unknown'' ''I cannot describe this field.'' [],
          fallback ''Division'' ''employee_data'' ''text'' ''I cannot describe this field.''
            [KeyStr ''Aerial'', KeyStr ''Splicing'', KeyStr ''Field Operations''],
          gender_record])
   \<and> distinct (map record_key
         [fallback ''Address'' ''employee_data'' ''unknown'' ''I cannot describe this field.'' [],
          fallback ''Division'' ''employee_data'' ''text'' ''I cannot describe this field.''
            [KeyStr ''Aerial'', KeyStr ''Splicing'', KeyStr ''Field Operations''],
          gender_record])"
proof -
  let ?fields = "[\<lparr>field_name = ''GenderCode'', data_type = ''keyword''\<rparr>,
            \<lparr>field_name = ''Division'', data_type = ''text''\<rparr>,
            \<lparr>field_name = ''Address'', data_type = ''unknown''\<rparr>]"
  have one: "snd (process_index_pool 1 reference_runtime employee_es ''employee_data''
                    describing_llm 20 [])
     = Inr [gender_record,
            fallback ''Division'' ''employee_data'' ''text'' ''I cannot describe this field.''
              [KeyStr ''Aerial'', KeyStr ''Splicing'', KeyStr ''Field Operations''],
            fallback ''Address'' ''employee_data'' ''unknown'' ''I cannot describe this field.'' []]"
    using employee_index_one_worker [of "[]"] by simp
  have ten: "snd (process_index_pool 10 reference_runtime employee_es ''employee_data''
                    describing_llm 20 [])
     = Inr [fallback ''Address'' ''employee_data'' ''unknown'' ''I cannot describe this field.'' [],
            fallback ''Division'' ''employee_data'' ''text'' ''I cannot describe this field.''
              [KeyStr ''Aerial'', KeyStr ''Splicing'', KeyStr ''Field Operations''],
            gender_record]"
    using employee_index_processed [of "[]"] by (simp add: process_index_def)
  have names: "distinct (map field_name ?fields)" by simp
  have echo: "\<forall>field_info \<in> set ?fields.
      \<exists>result. process_field reference_runtime employee_es ''employee_data'' field_info
                  describing_llm 20 = Inr result
        \<and> record_key result
            = (Some (JStr (field_name field_info)), Some (JStr ''employee_data''))"
    by (simp add: gender_processed division_processed address_processed record_key_def
          gender_record_def fallback_def)
  note independent = fan_out_pool_size_independent
        [of 1 reference_runtime employee_es "''employee_data''" describing_llm 20 "[]" 10 "[]"]
  have "mset (map record_key
         [gender_record,
          fallback ''Division'' ''employee_data'' ''text'' ''I cannot describe this field.''
            [KeyStr ''Aerial'', KeyStr ''Splicing'', KeyStr ''Field Operations''],
          fallback ''Address'' ''employee_data'' ''unknown'' ''I cannot describe this field.'' []])
     = mset (map record_key
         [fallback ''Address'' ''employee_data'' ''unknown'' ''I cannot describe this field.'' [],
          fallback ''Division'' ''employee_data'' ''text'' ''I cannot describe this field.''
            [KeyStr ''Aerial'', KeyStr ''Splicing'', KeyStr ''Field Operations''],
          gender_record])"
    using one ten independent by blast
  moreover have "distinct (map record_key
         [fallback ''Address'' ''employee_data'' ''unknown'' ''I cannot describe this field.'' [],
          fallback ''Division'' ''employee_data'' ''text'' ''I cannot describe this field.''
            [KeyStr ''Aerial'', KeyStr ''Splicing'', KeyStr ''Field Operations''],
          gender_record])"
    using employee_fields names echo one ten independent by blast
  ultimately show ?thesis using one ten by blast
qed

text \<open>
  With a generation service that answers every prompt with the record of
  \<^verbatim>\<open>GenderCode\<close>, the runs over pools of one and of ten workers both return that
  record three times: the same keys in both runs, and one key duplicated in each.
\<close>

theorem repeated_answer_duplicates_key:
  "snd (process_index_pool 1 reference_runtime employee_es ''employee_data'' repeating_llm 20 [])
     = Inr [gender_record, gender_record, gender_record]
   \<and> snd (process_index_pool 10 reference_runtime employee_es ''employee_data''
            repeating_llm 20 [])
     = Inr [gender_record, gender_record, gender_record]
   \<and> map record_key [gender_record, gender_record, gender_record]
     = [(Some (JStr ''GenderCode''), Some (JStr ''employee_data'')),
        (Some (JStr ''GenderCode''), Some (JStr ''employee_data'')),
        (Some (JStr ''GenderCode''), Some (JStr ''employee_data''))]
   \<and> \<not> distinct (map record_key [gender_record, gender_record, gender_record])"
proof -
  have key: "record_key gender_record
      = (Some (JStr ''GenderCode''), Some (JStr ''employee_data''))"
    by (simp add: record_key_def gender_record_def)
  show ?thesis using employee_index_repeated by (simp add: key)
qed

subsection \<open>Extraction after serialization\<close>

text \<open>
  Claim C8. For a serializer that writes an object \<open>x\<close> between braces and that
  \<^verbatim>\<open>json.loads\<close> inverts on \<open>x\<close>, the extraction from the serialization of \<open>x\<close>
  returns \<open>x\<close>.
\<close>

theorem extract_json_round_trip:
  assumes "json_loads rt (serialize x) = Inr x"
    and "serialize x = CHR ''{'' # body @ ''}''"
  shows "extract_json rt (serialize x) = Inr x"
proof -
  have "re_search pattern ([] @ CHR ''{'' # body @ CHR ''}'' # []) = Some (CHR ''{'' # body @ ''}'')"
    by (rule re_search_span) simp_all
  then have "re_search pattern (serialize x) = Some (serialize x)"
    using assms(2) by simp
  then show ?thesis using assms(1) by (simp add: extract_json_def)
qed

theorem extract_json_round_trip_witness:
  "json_loads reference_runtime (reference_dumps gender_record) = Inr gender_record
   \<and> extract_json reference_runtime (reference_dumps gender_record) = Inr gender_record"
proof -
  have l: "json_loads reference_runtime (reference_dumps gender_record) = Inr gender_record"
    by (simp add: reference_runtime_def gender_loaded)
  show ?thesis
    using l extract_json_round_trip [of reference_runtime reference_dumps gender_record,
        OF l gender_dumped]
    by blast
qed

subsection \<open>One index after the other\<close>

text \<open>
  Claim C9. In the log of \<^verbatim>\<open>generate_metadata_dictionary\<close> no unit of work is submitted
  while the pool of another index is not yet joined. When every index returns its
  records, the log is the logs of the indices and the dictionary is the records of the
  indices, both concatenated in the order the indices are iterated.
\<close>

theorem generate_metadata_dictionary_sequential:
  "(\<exists>new. fst (generate_metadata_dictionary rt es llm_client threshold log) = log @ new
        \<and> fan_outs_sequential None new)
   \<and> (get_indices es = Inr indices
        \<and> (\<forall>index \<in> set indices.
              snd (process_index rt es index llm_client threshold []) = Inr (per_index index))
      \<longrightarrow> generate_metadata_dictionary rt es llm_client threshold log
            = (log @ concat (map (\<lambda>index. fst (process_index rt es index llm_client threshold []))
                                 indices),
               Inr (concat (map per_index indices))))"
proof -
  have "\<exists>new. fst (generate_metadata_dictionary rt es llm_client threshold log) = log @ new
        \<and> fan_outs_sequential None new"
  proof (cases "get_indices es")
    case (Inl e)
    then show ?thesis by (simp add: generate_metadata_dictionary_def)
  next
    case (Inr indices')
    then show ?thesis
      using extend_all_log [of rt es llm_client threshold indices' "[]" log]
      by (simp add: generate_metadata_dictionary_def)
  qed
  moreover have "generate_metadata_dictionary rt es llm_client threshold log
            = (log @ concat (map (\<lambda>index. fst (process_index rt es index llm_client threshold []))
                                 indices),
               Inr (concat (map per_index indices)))"
    if "get_indices es = Inr indices"
      "\<forall>index \<in> set indices.
              snd (process_index rt es index llm_client threshold []) = Inr (per_index index)"
    using that extend_all_success [of indices rt es llm_client threshold per_index "[]" log]
    by (simp add: generate_metadata_dictionary_def)
  ultimately show ?thesis by blast
qed

theorem generate_metadata_dictionary_sequential_witness:
  "get_indices employee_es = Inr [''employee_data'', ''department_data'']
   \<and> generate_metadata_dictionary reference_runtime employee_es describing_llm 20 []
     = ([Submitted ''employee_data'' ''GenderCode'',
         Submitted ''employee_data'' ''Division'',
         Submitted ''employee_data'' ''Address'',
         Collected ''employee_data'' ''Address'',
         Collected ''employee_data'' ''Division'',
         Collected ''employee_data'' ''GenderCode'',
         Joined ''employee_data'',
         Submitted ''department_data'' ''DeptName'',
         Collected ''department_data'' ''DeptName'',
         Joined ''department_data''],
        Inr [fallback ''Address'' ''employee_data'' ''unknown'' ''I cannot describe this field.'' [],
             fallback ''Division'' ''employee_data'' ''text'' ''I cannot describe this field.''
               [KeyStr ''Aerial'', KeyStr ''Splicing'', KeyStr ''Field Operations''],
             gender_record,
             fallback ''DeptName'' ''department_data'' ''keyword''
               ''I cannot describe this field.'' []])
   \<and> fan_outs_sequential None
        (fst (generate_metadata_dictionary reference_runtime employee_es describing_llm 20 []))"
proof -
  define per_index where "per_index = (\<lambda>index.
    projr (snd (process_index reference_runtime employee_es index describing_llm 20 [])))"
  have ok: "\<forall>index \<in> set [''employee_data'', ''department_data''].
      snd (process_index reference_runtime employee_es index describing_llm 20 [])
        = Inr (per_index index)"
    by (simp add: per_index_def employee_index_processed department_index_processed)
  note seq = generate_metadata_dictionary_sequential
      [of reference_runtime employee_es describing_llm 20 "[]"
          "[''employee_data'', ''department_data'']" per_index]
  have "generate_metadata_dictionary reference_runtime employee_es describing_llm 20 []
      = ([] @ concat (map (\<lambda>index. fst (process_index reference_runtime employee_es index
                                            describing_llm 20 []))
                        [''employee_data'', ''department_data'']),
         Inr (concat (map per_index [''employee_data'', ''department_data''])))"
    using seq employee_indices ok by blast
  then have run: "generate_metadata_dictionary reference_runtime employee_es describing_llm 20 []
     = ([Submitted ''employee_data'' ''GenderCode'',
         Submitted ''employee_data'' ''Division'',
         Submitted ''employee_data'' ''Address'',
         Collected ''employee_data'' ''Address'',
         Collected ''employee_data'' ''Division'',
         Collected ''employee_data'' ''GenderCode'',
         Joined ''employee_data'',
         Submitted ''department_data'' ''DeptName'',
         Collected ''department_data'' ''DeptName'',
         Joined ''department_data''],
        Inr [fallback ''Address'' ''employee_data'' ''unknown'' ''I cannot describe this field.'' [],
             fallback ''Division'' ''employee_data'' ''text'' ''I cannot describe this field.''
               [KeyStr ''Aerial'', KeyStr ''Splicing'', KeyStr ''Field Operations''],
             gender_record,
             fallback ''DeptName'' ''department_data'' ''keyword''
               ''I cannot describe this field.'' []])"
    by (simp add: per_index_def employee_index_processed department_index_processed)
  have "\<exists>new. fst (generate_metadata_dictionary reference_runtime employee_es describing_llm 20 [])
          = [] @ new \<and> fan_outs_sequential None new"
    using seq by blast
  then have "fan_outs_sequential None
      (fst (generate_metadata_dictionary reference_runtime employee_es describing_llm 20 []))"
    by (metis append_Nil)
  then show ?thesis using employee_indices run by blast
qed

subsection \<open>A property without a declared type\<close>

text \<open>
  Claim C10. For a property entry with no \<^verbatim>\<open>type\<close>, \<^verbatim>\<open>get_fields\<close> returns the field
  with the data type \<^verbatim>\<open>unknown\<close>; its aggregation target is the bare field name, and
  \<^verbatim>\<open>process_index\<close> submits a unit of work for it as for any other field.
\<close>

theorem get_fields_unknown_type:
  assumes "es_get_mapping es index = Inr mapping"
    and "map_of mapping index = Some (Some properties)"
    and "i < length properties"
    and "snd (properties ! i) ''type'' = None"
  shows "\<exists>fields_info. get_fields es index = Inr fields_info
           \<and> length fields_info = length properties
           \<and> fields_info ! i = \<lparr>field_name = fst (properties ! i), data_type = ''unknown''\<rparr>
           \<and> agg_field (field_name (fields_info ! i)) (data_type (fields_info ! i))
               = fst (properties ! i)
           \<and> (index, fst (properties ! i))
               \<in> set (submissions (fst (process_index rt es index llm_client threshold [])))"
proof -
  define fields_info where "fields_info =
    map (\<lambda>(field, details). \<lparr>field_name = field, data_type = dict_get details ''type'' ''unknown''\<rparr>)
        properties"
  have g: "get_fields es index = Inr fields_info"
    using assms(1,2) by (simp add: get_fields_def fields_info_def)
  have n: "length fields_info = length properties" by (simp add: fields_info_def)
  have f: "fields_info ! i = \<lparr>field_name = fst (properties ! i), data_type = ''unknown''\<rparr>"
    using assms(3,4) by (simp add: fields_info_def dict_get_def split_beta)
  have a: "agg_field (field_name (fields_info ! i)) (data_type (fields_info ! i))
      = fst (properties ! i)"
    by (simp add: f agg_field_def)
  have "fields_info ! i \<in> set fields_info" using assms(3) n by simp
  then have "(index, field_name (fields_info ! i))
      \<in> set (map (\<lambda>field_info. (index, field_name field_info)) fields_info)"
    by (metis (mono_tags, lifting) image_eqI set_map)
  then have s: "(index, fst (properties ! i))
      \<in> set (submissions (fst (process_index rt es index llm_client threshold [])))"
    by (simp add: process_index_def process_index_submissions [OF g] f)
  show ?thesis using g n f a s by blast
qed

theorem get_fields_unknown_type_witness:
  "\<exists>fields_info. get_fields employee_es ''employee_data'' = Inr fields_info
     \<and> length fields_info = 3
     \<and> fields_info ! 2 = \<lparr>field_name = ''Address'', data_type = ''unknown''\<rparr>
     \<and> agg_field (field_name (fields_info ! 2)) (data_type (fields_info ! 2)) = ''Address''
     \<and> (''employee_data'', ''Address'')
         \<in> set (submissions (fst (process_index reference_runtime employee_es ''employee_data''
                                     describing_llm 20 [])))"
proof -
  have m: "es_get_mapping employee_es ''employee_data''
      = Inr [(''employee_data'', Some employee_properties)]"
    by (simp add: employee_es_def)
  have p: "map_of [(''employee_data'', Some employee_properties)] ''employee_data''
      = Some (Some employee_properties)"
    by simp
  have i: "2 < length employee_properties" by (simp add: employee_properties_def)
  have t: "snd (employee_properties ! 2) ''type'' = None"
    by (simp add: employee_properties_def)
  have "fst (employee_properties ! 2) = ''Address''" "length employee_properties = 3"
    by (simp_all add: employee_properties_def)
  then show ?thesis
    using get_fields_unknown_type [OF m p i t, of reference_runtime describing_llm 20]
    by simp
qed

end
